theory Spec2Isabelle
  imports Main
begin

section \<open>The platform: Python's logging module, as far as the Logger class uses it\<close>

text \<open>
  \<^verbatim>\<open>pyessential/logger.py\<close> is a thin layer over the standard \<^verbatim>\<open>logging\<close> module, so
  what its methods do is what the calls they forward to do. This section writes down the
  part of \<^verbatim>\<open>logging\<close> those calls reach: the registry of named loggers, handler objects,
  the level test of \<^verbatim>\<open>Logger.isEnabledFor\<close>, and \<^verbatim>\<open>Logger.callHandlers\<close>.

  Scope of the embedding. A log file's content is the sequence of log records handed
  to the handler writing that file; rendering a record through the format template,
  time-based rotation of the file, the \<^verbatim>\<open>stacklevel\<close> argument (it only selects the
  source location printed in a line) and interpolation arguments (\<^verbatim>\<open>*args\<close>,
  \<^verbatim>\<open>**kwargs\<close>) are left to the platform: the calls embedded here pass none, and
  then a record's text is \<^verbatim>\<open>str(msg)\<close>. Loggers are never disabled and carry no filters.
  Constructions are those that return: \<^verbatim>\<open>os.makedirs\<close> succeeds and the rotation
  schedule is one \<^verbatim>\<open>TimedRotatingFileHandler\<close> accepts.
\<close>

subsection \<open>Severity levels\<close>

definition NOTSET :: nat where "NOTSET = 0"
definition DEBUG :: nat where "DEBUG = 10"
definition INFO :: nat where "INFO = 20"
definition WARNING :: nat where "WARNING = 30"
definition ERROR :: nat where "ERROR = 40"
definition CRITICAL :: nat where "CRITICAL = 50"

subsection \<open>Exceptions, tracebacks and messages\<close>

text \<open>An exception object, reduced to what \<^verbatim>\<open>log_error\<close> reads from it:
  \<^verbatim>\<open>err.__class__.__name__\<close> and \<^verbatim>\<open>str(err)\<close>.\<close>

record pyexc =
  class_name :: string
  str_form :: string

text \<open>One traceback entry: \<^verbatim>\<open>tb_frame.f_code.co_filename\<close>, \<^verbatim>\<open>tb_lineno\<close> and
  \<^verbatim>\<open>tb_frame.f_code.co_name\<close>.\<close>

record tb_entry =
  co_filename :: string
  tb_lineno :: int
  co_name :: string

text \<open>
  The exception being handled, as \<^verbatim>\<open>sys.exc_info()\<close> reports it. The traceback is
  the chain \<^verbatim>\<open>exc_tb, exc_tb.tb_next, ...\<close>: its first entry is the frame in which the
  exception is being handled (the one holding the \<^verbatim>\<open>try\<close>), its last entry the frame
  whose \<^verbatim>\<open>raise\<close> started it. The empty list stands for a traceback that is
  \<^verbatim>\<open>None\<close>. \<open>ctx_text\<close> is what \<^verbatim>\<open>traceback.format_exc()\<close> renders.
  No exception being handled is \<open>None :: exc_ctx option\<close>.
\<close>

record exc_ctx =
  ctx_exc :: pyexc
  ctx_tb :: "tb_entry list"
  ctx_text :: string

text \<open>The mapping \<^verbatim>\<open>log_error\<close> builds and returns (\<^verbatim>\<open>function\<close> is a keyword here,
  hence \<open>function_name\<close>).\<close>

record report =
  exception_type :: string
  exception_message :: string
  filename :: string
  lineno :: int
  function_name :: string
  timestamp :: string
  traceback :: string

text \<open>The \<^verbatim>\<open>msg\<close> argument of a logging call: a string, or the mapping of
  \<^verbatim>\<open>log_error\<close>.\<close>

datatype pymsg = Text string | Dict report

text \<open>A \<^verbatim>\<open>LogRecord\<close>: its level, its message object, and \<^verbatim>\<open>exc_info\<close>, which is
  absent (\<open>None\<close>) or the triple \<^verbatim>\<open>sys.exc_info()\<close> returned when the record was
  made (\<open>Some None\<close> when no exception was being handled).\<close>

record log_record =
  rec_levelno :: nat
  rec_msg :: pymsg
  rec_exc_info :: "exc_ctx option option"

subsection \<open>Handlers, loggers and the world\<close>

datatype target = LogFile string | SysStdout | SysStderr

datatype failure = OSError | ValueError | OtherException string

text \<open>
  A handler object. \<open>h_target\<close> is the file of a \<^verbatim>\<open>TimedRotatingFileHandler\<close> or the
  console stream of a \<^verbatim>\<open>StreamHandler\<close>; \<open>h_open\<close> says that \<^verbatim>\<open>self.stream\<close> is set
  (a file handler made with \<^verbatim>\<open>delay=True\<close> starts without one); \<open>h_closed\<close> is
  \<^verbatim>\<open>Handler._closed\<close>.
\<close>

record handler =
  h_target :: target
  h_level :: nat
  h_open :: bool
  h_closed :: bool

record pylogger =
  lg_level :: nat
  lg_handlers :: "nat list"
  lg_propagate :: bool

text \<open>
  The state outside the Logger object. \<open>loggers\<close> is the registry behind
  \<^verbatim>\<open>logging.getLogger\<close>: one logger object per name, made on first request with level
  \<open>NOTSET\<close>, no handlers and \<open>propagate\<close> set, which is what a name never asked for
  maps to. Handler objects live in \<open>handler_heap\<close> under their identity. \<open>files\<close>
  maps a path to the records written to it, \<open>None\<close> while the file does not exist.
  \<open>io_fault t\<close> is the failure that writing, flushing or closing a stream on \<open>t\<close>
  raises, if any.
\<close>

record world =
  loggers :: "string \<Rightarrow> pylogger"
  root_logger :: pylogger
  handler_heap :: "nat \<Rightarrow> handler option"
  next_id :: nat
  files :: "string \<Rightarrow> log_record list option"
  sys_stdout :: "log_record list"
  sys_stderr :: "log_record list"
  io_fault :: "target \<Rightarrow> failure option"

definition new_logger :: pylogger where
  "new_logger = \<lparr>lg_level = NOTSET, lg_handlers = [], lg_propagate = True\<rparr>"

definition world0 :: world where
  "world0 = \<lparr>loggers = (\<lambda>_. new_logger),
     root_logger = \<lparr>lg_level = WARNING, lg_handlers = [], lg_propagate = True\<rparr>,
     handler_heap = (\<lambda>_. None), next_id = 0, files = (\<lambda>_. None),
     sys_stdout = [], sys_stderr = [], io_fault = (\<lambda>_. None)\<rparr>"

definition file_content :: "world \<Rightarrow> string \<Rightarrow> log_record list" where
  "file_content s p = (case files s p of None \<Rightarrow> [] | Some es \<Rightarrow> es)"

subsection \<open>Logger methods of the platform\<close>

definition setLevel :: "string \<Rightarrow> nat \<Rightarrow> world \<Rightarrow> world" where
  "setLevel n l s = s\<lparr>loggers := (loggers s)(n := (loggers s n)\<lparr>lg_level := l\<rparr>)\<rparr>"

definition handlers_clear :: "string \<Rightarrow> world \<Rightarrow> world" where
  "handlers_clear n s = s\<lparr>loggers := (loggers s)(n := (loggers s n)\<lparr>lg_handlers := []\<rparr>)\<rparr>"

definition set_propagate :: "string \<Rightarrow> bool \<Rightarrow> world \<Rightarrow> world" where
  "set_propagate n b s = s\<lparr>loggers := (loggers s)(n := (loggers s n)\<lparr>lg_propagate := b\<rparr>)\<rparr>"

text \<open>\<^verbatim>\<open>addHandler\<close> appends unless the handler is attached already; \<^verbatim>\<open>removeHandler\<close>
  drops one occurrence if there is one.\<close>

definition addHandler :: "string \<Rightarrow> nat \<Rightarrow> world \<Rightarrow> world" where
  "addHandler n h s =
     (if h \<in> set (lg_handlers (loggers s n)) then s
      else s\<lparr>loggers := (loggers s)(n := (loggers s n)\<lparr>lg_handlers := lg_handlers (loggers s n) @ [h]\<rparr>)\<rparr>)"

definition removeHandler :: "string \<Rightarrow> nat \<Rightarrow> world \<Rightarrow> world" where
  "removeHandler n h s =
     s\<lparr>loggers := (loggers s)(n := (loggers s n)\<lparr>lg_handlers := remove1 h (lg_handlers (loggers s n))\<rparr>)\<rparr>"

text \<open>Allocating a handler object: the constructor returns a fresh identity.\<close>

definition new_handler :: "handler \<Rightarrow> world \<Rightarrow> nat \<times> world" where
  "new_handler ho s =
     (next_id s, s\<lparr>handler_heap := (handler_heap s)(next_id s \<mapsto> ho), next_id := Suc (next_id s)\<rparr>)"

definition handler_setLevel :: "nat \<Rightarrow> nat \<Rightarrow> world \<Rightarrow> world" where
  "handler_setLevel h l s =
     (case handler_heap s h of None \<Rightarrow> s
      | Some ho \<Rightarrow> s\<lparr>handler_heap := (handler_heap s)(h \<mapsto> ho\<lparr>h_level := l\<rparr>)\<rparr>)"

definition write_target :: "target \<Rightarrow> log_record \<Rightarrow> world \<Rightarrow> world" where
  "write_target t e s =
     (case t of
        LogFile p \<Rightarrow> s\<lparr>files := (files s)(p \<mapsto> file_content s p @ [e])\<rparr>
      | SysStdout \<Rightarrow> s\<lparr>sys_stdout := sys_stdout s @ [e]\<rparr>
      | SysStderr \<Rightarrow> s\<lparr>sys_stderr := sys_stderr s @ [e]\<rparr>)"

text \<open>
  \<^verbatim>\<open>Handler.emit\<close>: a file handler opens its file on the first record (mode
  \<^verbatim>\<open>'a'\<close>, so also after a close), then the record is written. A failure of the
  stream goes to \<^verbatim>\<open>handleError\<close> and is not raised: nothing is written.
\<close>

definition handler_emit :: "nat \<Rightarrow> log_record \<Rightarrow> world \<Rightarrow> world" where
  "handler_emit h e s =
     (case handler_heap s h of None \<Rightarrow> s
      | Some ho \<Rightarrow>
          (case io_fault s (h_target ho) of Some _ \<Rightarrow> s
           | None \<Rightarrow> write_target (h_target ho) e
                       (s\<lparr>handler_heap := (handler_heap s)(h \<mapsto> ho\<lparr>h_open := True\<rparr>)\<rparr>)))"

definition handler_handle :: "log_record \<Rightarrow> nat \<Rightarrow> world \<Rightarrow> world" where
  "handler_handle e h s =
     (case handler_heap s h of None \<Rightarrow> s
      | Some ho \<Rightarrow> if h_level ho \<le> rec_levelno e then handler_emit h e s else s)"

text \<open>
  The ancestors of a dotted name, nearest first: \<^verbatim>\<open>a.b\<close> and \<^verbatim>\<open>a\<close> for
  \<^verbatim>\<open>a.b.c\<close>. They are found as the registry finds them,
  \<^verbatim>\<open>i = name.rfind(".")\<close>, then \<^verbatim>\<open>name[:i]\<close> and \<^verbatim>\<open>i = name.rfind(".", 0, i - 1)\<close>
  while \<^verbatim>\<open>i > 0\<close>; \<open>dots_below n e\<close> is that loop with the search bounded by \<open>e\<close>.
  A logger's chain is itself, its ancestors and the root logger, cut after the first
  logger that does not propagate. An ancestor nobody asked for is a logger without level
  and handlers that propagates, so it passes records and level lookups on, as its absence
  does on the platform.
\<close>

fun dots_below :: "string \<Rightarrow> nat \<Rightarrow> string list" where
  "dots_below n 0 = []"
| "dots_below n (Suc j) =
     (if j < length n \<and> n ! j = CHR ''.''
      then (if 0 < j then take j n # dots_below n (j - 1) else [])
      else dots_below n j)"

definition ancestors :: "string \<Rightarrow> string list" where
  "ancestors n = dots_below n (length n)"

fun upto_nonprop :: "pylogger list \<Rightarrow> pylogger list" where
  "upto_nonprop [] = []"
| "upto_nonprop (l # ls) = (if lg_propagate l then l # upto_nonprop ls else [l])"

definition lineage :: "world \<Rightarrow> string \<Rightarrow> pylogger list" where
  "lineage s n = map (loggers s) (n # ancestors n) @ [root_logger s]"

definition getEffectiveLevel :: "world \<Rightarrow> string \<Rightarrow> nat" where
  "getEffectiveLevel s n =
     (case filter (\<lambda>l. l \<noteq> NOTSET) (map lg_level (lineage s n)) of [] \<Rightarrow> NOTSET | l # _ \<Rightarrow> l)"

definition isEnabledFor :: "world \<Rightarrow> string \<Rightarrow> nat \<Rightarrow> bool" where
  "isEnabledFor s n lvl \<longleftrightarrow> getEffectiveLevel s n \<le> lvl"

text \<open>
  \<^verbatim>\<open>Logger.callHandlers\<close>: every handler on the chain whose own level admits the record
  handles it. When the chain holds no handler at all, the record goes to
  \<^verbatim>\<open>logging.lastResort\<close>, a handler on \<^verbatim>\<open>sys.stderr\<close> of level \<open>WARNING\<close>.
\<close>

definition callHandlers :: "string \<Rightarrow> log_record \<Rightarrow> world \<Rightarrow> world" where
  "callHandlers n e s =
     (let hs = concat (map lg_handlers (upto_nonprop (lineage s n)))
      in if hs = [] then
           (if WARNING \<le> rec_levelno e \<and> io_fault s SysStderr = None
            then write_target SysStderr e s else s)
         else fold (handler_handle e) hs s)"

text \<open>
  \<^verbatim>\<open>Logger.debug\<close>, \<^verbatim>\<open>info\<close>, \<^verbatim>\<open>warning\<close>, \<^verbatim>\<open>error\<close> and \<^verbatim>\<open>critical\<close> of the
  platform are this function at their level. A true \<^verbatim>\<open>exc_info\<close> is replaced by
  \<^verbatim>\<open>sys.exc_info()\<close>, here the argument \<open>amb\<close>.
\<close>

definition makeRecord :: "nat \<Rightarrow> pymsg \<Rightarrow> bool \<Rightarrow> exc_ctx option \<Rightarrow> log_record" where
  "makeRecord lvl m ei amb =
     \<lparr>rec_levelno = lvl, rec_msg = m, rec_exc_info = (if ei then Some amb else None)\<rparr>"

definition logger_log :: "string \<Rightarrow> nat \<Rightarrow> pymsg \<Rightarrow> bool \<Rightarrow> exc_ctx option \<Rightarrow> world \<Rightarrow> world" where
  "logger_log n lvl m ei amb s =
     (if isEnabledFor s n lvl then callHandlers n (makeRecord lvl m ei amb) s else s)"

text \<open>
  \<^verbatim>\<open>flush\<close> flushes the stream when there is one. \<^verbatim>\<open>close\<close> of a file handler flushes
  and closes its stream, lets go of it whether or not that failed, and marks the handler
  closed; \<^verbatim>\<open>close\<close> of a console handler only marks it closed. Either returns the
  failure it raised together with the world it left behind.
\<close>

definition handler_flush :: "nat \<Rightarrow> world \<Rightarrow> failure option \<times> world" where
  "handler_flush h s =
     (case handler_heap s h of None \<Rightarrow> (None, s)
      | Some ho \<Rightarrow> (if h_open ho then io_fault s (h_target ho) else None, s))"

definition handler_close :: "nat \<Rightarrow> world \<Rightarrow> failure option \<times> world" where
  "handler_close h s =
     (case handler_heap s h of None \<Rightarrow> (None, s)
      | Some ho \<Rightarrow>
          (case h_target ho of
             LogFile p \<Rightarrow>
               (if h_open ho then io_fault s (LogFile p) else None,
                s\<lparr>handler_heap := (handler_heap s)(h \<mapsto> ho\<lparr>h_open := False, h_closed := True\<rparr>)\<rparr>)
           | _ \<Rightarrow> (None, s\<lparr>handler_heap := (handler_heap s)(h \<mapsto> ho\<lparr>h_closed := True\<rparr>)\<rparr>)))"

section \<open>The Logger class\<close>

subsection \<open>Level names and paths\<close>

definition ascii_lower :: "char \<Rightarrow> char" where
  "ascii_lower c =
     (if 65 \<le> (of_char c :: nat) \<and> (of_char c :: nat) \<le> 90 then char_of ((of_char c :: nat) + 32) else c)"

definition lower :: "string \<Rightarrow> string" where
  "lower s = map ascii_lower s"

definition LEVEL_MAP :: "string \<Rightarrow> nat option" where
  "LEVEL_MAP = map_of [(''debug'', DEBUG), (''info'', INFO), (''warning'', WARNING),
                       (''error'', ERROR), (''critical'', CRITICAL)]"

text \<open>\<^verbatim>\<open>cls._LEVEL_MAP.get(level.lower(), logging.DEBUG)\<close>\<close>

definition level_of :: "string \<Rightarrow> nat" where
  "level_of level = (case LEVEL_MAP (lower level) of None \<Rightarrow> DEBUG | Some l \<Rightarrow> l)"

text \<open>\<^verbatim>\<open>os.path.join\<close> of two components and the second component of
  \<^verbatim>\<open>os.path.split\<close>, on POSIX paths.\<close>

definition path_join :: "string \<Rightarrow> string \<Rightarrow> string" where
  "path_join a b =
     (if b \<noteq> [] \<and> hd b = CHR ''/'' then b
      else if a = [] \<or> last a = CHR ''/'' then a @ b
      else a @ ''/'' @ b)"

definition basename :: "string \<Rightarrow> string" where
  "basename p = rev (takeWhile (\<lambda>c. c \<noteq> CHR ''/'') (rev p))"

subsection \<open>Construction\<close>

text \<open>
  The constructor's arguments that reach the embedded state. \<open>cfg_log_dir\<close> is the
  value of \<^verbatim>\<open>os.path.abspath(log_dir)\<close>; the rotation schedule, the two templates and
  the encoding are handed to the platform's handler and formatter unchanged.
\<close>

record config =
  cfg_log_dir :: string
  cfg_log_name :: string
  cfg_level :: string
  cfg_enable_console :: bool

text \<open>A Logger object. Its three logger attributes are references to objects of the
  registry, that is, their names.\<close>

record router =
  log_dir :: string
  log_name :: string
  stdin_path :: string
  stdout_path :: string
  error_path :: string
  stdin_logger :: string
  stdout_logger :: string
  error_logger :: string

definition build_logger :: "string \<Rightarrow> string \<Rightarrow> string \<Rightarrow> bool \<Rightarrow> bool \<Rightarrow> world \<Rightarrow> string \<times> world" where
  "build_logger name filepath level enable_console console_to_stderr s =
     (let log_level = level_of level;
          s1 = setLevel name log_level s;
          s2 = handlers_clear name s1;
          s3 = set_propagate name False s2;
          (fh, s4) = new_handler \<lparr>h_target = LogFile filepath, h_level = NOTSET,
                                   h_open = False, h_closed = False\<rparr> s3;
          s5 = addHandler name fh s4
      in if enable_console then
           (let stream = (if console_to_stderr then SysStderr else SysStdout);
                (sh, s6) = new_handler \<lparr>h_target = stream, h_level = NOTSET,
                                         h_open = True, h_closed = False\<rparr> s5;
                s7 = handler_setLevel sh log_level s6;
                s8 = addHandler name sh s7
            in (name, s8))
         else (name, s5))"

text \<open>The Logger object a construction with \<open>cfg\<close> returns (see \<open>Logger_init_router\<close>).\<close>

definition router_of :: "config \<Rightarrow> router" where
  "router_of cfg =
     \<lparr>log_dir = cfg_log_dir cfg, log_name = cfg_log_name cfg,
      stdin_path = path_join (cfg_log_dir cfg) (cfg_log_name cfg @ ''_stdin.log''),
      stdout_path = path_join (cfg_log_dir cfg) (cfg_log_name cfg @ ''_stdout.log''),
      error_path = path_join (cfg_log_dir cfg) (cfg_log_name cfg @ ''_error.log''),
      stdin_logger = cfg_log_name cfg @ ''.stdin'',
      stdout_logger = cfg_log_name cfg @ ''.stdout'',
      error_logger = cfg_log_name cfg @ ''.error''\<rparr>"

definition Logger_init :: "config \<Rightarrow> world \<Rightarrow> router \<times> world" where
  "Logger_init cfg s =
     (let dir = cfg_log_dir cfg;
          name = cfg_log_name cfg;
          p_in = path_join dir (name @ ''_stdin.log'');
          p_out = path_join dir (name @ ''_stdout.log'');
          p_err = path_join dir (name @ ''_error.log'');
          (l_in, s1) = build_logger (name @ ''.stdin'') p_in (cfg_level cfg) False False s;
          (l_out, s2) = build_logger (name @ ''.stdout'') p_out (cfg_level cfg)
                          (cfg_enable_console cfg) False s1;
          (l_err, s3) = build_logger (name @ ''.error'') p_err (cfg_level cfg)
                          (cfg_enable_console cfg) True s2
      in (\<lparr>log_dir = dir, log_name = name, stdin_path = p_in, stdout_path = p_out,
           error_path = p_err, stdin_logger = l_in, stdout_logger = l_out,
           error_logger = l_err\<rparr>, s3))"

subsection \<open>Public methods\<close>

text \<open>Each method takes the message, the \<^verbatim>\<open>exc_info\<close> flag, and the exception being
  handled at the call (what \<^verbatim>\<open>sys.exc_info()\<close> would return there).\<close>

definition debug :: "router \<Rightarrow> pymsg \<Rightarrow> bool \<Rightarrow> exc_ctx option \<Rightarrow> world \<Rightarrow> world" where
  "debug self m ei amb s = logger_log (stdout_logger self) DEBUG m ei amb s"

definition info :: "router \<Rightarrow> pymsg \<Rightarrow> bool \<Rightarrow> exc_ctx option \<Rightarrow> world \<Rightarrow> world" where
  "info self m ei amb s = logger_log (stdout_logger self) INFO m ei amb s"

definition warning :: "router \<Rightarrow> pymsg \<Rightarrow> bool \<Rightarrow> exc_ctx option \<Rightarrow> world \<Rightarrow> world" where
  "warning self m ei amb s = logger_log (stdout_logger self) WARNING m ei amb s"

definition error :: "router \<Rightarrow> pymsg \<Rightarrow> bool \<Rightarrow> exc_ctx option \<Rightarrow> world \<Rightarrow> world" where
  "error self m ei amb s = logger_log (error_logger self) ERROR m ei amb s"

definition critical :: "router \<Rightarrow> pymsg \<Rightarrow> bool \<Rightarrow> exc_ctx option \<Rightarrow> world \<Rightarrow> world" where
  "critical self m ei amb s = logger_log (error_logger self) CRITICAL m ei amb s"

definition exception :: "router \<Rightarrow> pymsg \<Rightarrow> bool \<Rightarrow> exc_ctx option \<Rightarrow> world \<Rightarrow> world" where
  "exception self m ei amb s = logger_log (error_logger self) ERROR m True amb s"

definition stdin :: "router \<Rightarrow> pymsg \<Rightarrow> bool \<Rightarrow> exc_ctx option \<Rightarrow> world \<Rightarrow> world" where
  "stdin self m ei amb s = logger_log (stdin_logger self) INFO m ei amb s"

text \<open>\<^verbatim>\<open>traceback.format_exc()\<close>: the text of the exception being handled, and
  \<^verbatim>\<open>NoneType: None\<close> with a newline when there is none.\<close>

definition format_exc :: "exc_ctx option \<Rightarrow> string" where
  "format_exc amb = (case amb of None \<Rightarrow> ''NoneType: None'' @ [CHR 0x0A] | Some c \<Rightarrow> ctx_text c)"

text \<open>\<open>now\<close> is \<^verbatim>\<open>datetime.now().strftime("%Y-%m-%d %H:%M:%S")\<close> at the call.\<close>

definition log_error :: "router \<Rightarrow> pyexc \<Rightarrow> exc_ctx option \<Rightarrow> string \<Rightarrow> world \<Rightarrow> report \<times> world" where
  "log_error self err amb now s =
     (let exc_tb = (case amb of None \<Rightarrow> [] | Some c \<Rightarrow> ctx_tb c);
          (fname, lno, func_name) =
             (case exc_tb of
                [] \<Rightarrow> (''<unknown>'', - 1, ''<unknown>'')
              | fr # _ \<Rightarrow> (basename (co_filename fr), tb_lineno fr, co_name fr));
          e_type = class_name err;
          data = \<lparr>exception_type = e_type, exception_message = str_form err,
                  filename = fname, lineno = lno, function_name = func_name,
                  timestamp = now, traceback = format_exc amb\<rparr>
      in (data, error self (Dict data) True amb s))"

subsection \<open>Closing and scoped use\<close>

text \<open>
  Statements that may raise return the failure with the world they leave. \<open>seq\<close> runs
  the next statement unless the previous one raised. \<^verbatim>\<open>try: ... except Exception: pass\<close>
  drops the failure and goes on in the world the statement left: every value of
  \<open>failure\<close> is an instance of \<^verbatim>\<open>Exception\<close>.
\<close>

definition seq :: "failure option \<times> world \<Rightarrow> (world \<Rightarrow> failure option \<times> world) \<Rightarrow> failure option \<times> world" where
  "seq r k = (case fst r of Some f \<Rightarrow> r | None \<Rightarrow> k (snd r))"

definition try_except_pass :: "failure option \<times> world \<Rightarrow> failure option \<times> world" where
  "try_except_pass r = (case fst r of Some f \<Rightarrow> (None, snd r) | None \<Rightarrow> r)"

definition close_handler :: "string \<Rightarrow> nat \<Rightarrow> world \<Rightarrow> failure option \<times> world" where
  "close_handler lg h s =
     seq (try_except_pass (handler_flush h s))
       (\<lambda>s1. seq (try_except_pass (handler_close h s1))
          (\<lambda>s2. (None, removeHandler lg h s2)))"

text \<open>\<^verbatim>\<open>for h in list(lg.handlers)\<close>: the loop runs over a copy made before it starts.\<close>

definition close_logger :: "string \<Rightarrow> world \<Rightarrow> failure option \<times> world" where
  "close_logger lg s =
     fold (\<lambda>h r. seq r (close_handler lg h)) (lg_handlers (loggers s lg)) (None, s)"

definition close :: "router \<Rightarrow> world \<Rightarrow> failure option \<times> world" where
  "close self s =
     seq (seq (close_logger (stdin_logger self) s) (close_logger (stdout_logger self)))
       (close_logger (error_logger self))"

definition Logger_enter :: "router \<Rightarrow> router" where
  "Logger_enter self = self"

text \<open>\<^verbatim>\<open>__exit__(exc_type, exc_value, traceback)\<close>: \<open>exc\<close> is the failure the block raised,
  \<open>None\<close> when it ended normally. The method returns \<^verbatim>\<open>None\<close>.\<close>

definition Logger_exit :: "router \<Rightarrow> failure option \<Rightarrow> world \<Rightarrow> failure option \<times> world" where
  "Logger_exit self exc s = close self s"

text \<open>
  \<^verbatim>\<open>with mgr as log: body\<close>. The block gets what \<^verbatim>\<open>__enter__\<close> returned;
  \<^verbatim>\<open>__exit__\<close> runs however the block ended, and since it returns \<^verbatim>\<open>None\<close> a
  failure of the block is raised again after it.
\<close>

definition with_scope ::
  "router \<Rightarrow> (router \<Rightarrow> world \<Rightarrow> (failure + 'a) \<times> world) \<Rightarrow> world \<Rightarrow> (failure + 'a) \<times> world" where
  "with_scope mgr body s =
     (let (r, s1) = body (Logger_enter mgr) s;
          (f, s2) = Logger_exit mgr (case r of Inl e \<Rightarrow> Some e | Inr _ \<Rightarrow> None) s1
      in (case f of Some e \<Rightarrow> (Inl e, s2) | None \<Rightarrow> (r, s2)))"

section \<open>Well-wired sinks\<close>

text \<open>
  \<open>handler_sig\<close> is what a handler object is for good: its target and its level.
  A sink, a logger \<open>n\<close> with a file \<open>p\<close>, is in order when the logger does not
  propagate, has a level of its own, the file takes writes, its first handler is a file
  handler on \<open>p\<close> admitting every level and its other handlers are console handlers.
  This is how \<open>build_logger\<close> leaves a sink; \<open>wired\<close> says so for the three sinks
  of a Logger object.
\<close>

definition is_console :: "target \<Rightarrow> bool" where
  "is_console t = (case t of LogFile _ \<Rightarrow> False | _ \<Rightarrow> True)"

definition handler_sig :: "world \<Rightarrow> nat \<Rightarrow> (target \<times> nat) option" where
  "handler_sig s h = map_option (\<lambda>ho. (h_target ho, h_level ho)) (handler_heap s h)"

definition sink_ok :: "world \<Rightarrow> string \<Rightarrow> string \<Rightarrow> bool" where
  "sink_ok s n p \<longleftrightarrow>
     \<not> lg_propagate (loggers s n) \<and> lg_level (loggers s n) \<noteq> NOTSET \<and>
     io_fault s (LogFile p) = None \<and>
     (case lg_handlers (loggers s n) of
        [] \<Rightarrow> False
      | fh # rest \<Rightarrow>
          handler_sig s fh = Some (LogFile p, NOTSET) \<and>
          list_all (\<lambda>h. case handler_sig s h of None \<Rightarrow> False | Some sg \<Rightarrow> is_console (fst sg)) rest)"

definition wired :: "router \<Rightarrow> world \<Rightarrow> bool" where
  "wired self s \<longleftrightarrow>
     sink_ok s (stdin_logger self) (stdin_path self) \<and>
     sink_ok s (stdout_logger self) (stdout_path self) \<and>
     sink_ok s (error_logger self) (error_path self)"

text \<open>How two worlds compare on the files: \<open>appends_only s s' p e\<close> says that going
  from \<open>s\<close> to \<open>s'\<close> added the record \<open>e\<close> at the end of file \<open>p\<close> and changed
  no other file; \<open>untouched s s' p\<close> that file \<open>p\<close> is as it was.\<close>

definition appends_only :: "world \<Rightarrow> world \<Rightarrow> string \<Rightarrow> log_record \<Rightarrow> bool" where
  "appends_only s s' p e \<longleftrightarrow> files s' = (files s)(p \<mapsto> file_content s p @ [e])"

definition untouched :: "world \<Rightarrow> world \<Rightarrow> string \<Rightarrow> bool" where
  "untouched s s' p \<longleftrightarrow> files s' p = files s p"

text \<open>Concrete constructor arguments used to run the definitions.\<close>

definition cfg_app :: "string \<Rightarrow> bool \<Rightarrow> config" where
  "cfg_app level console =
     \<lparr>cfg_log_dir = ''/logs'', cfg_log_name = ''test_app'', cfg_level = level,
      cfg_enable_console = console\<rparr>"

definition built :: "string \<Rightarrow> bool \<Rightarrow> router \<times> world" where
  "built level console = Logger_init (cfg_app level console) world0"

text \<open>A handler object is released when it is marked closed and, if it is a file
  handler, holds no stream.\<close>

definition released :: "world \<Rightarrow> nat \<Rightarrow> bool" where
  "released s h \<longleftrightarrow>
     (case handler_heap s h of None \<Rightarrow> False
      | Some ho \<Rightarrow> h_closed ho \<and> (is_console (h_target ho) \<or> \<not> h_open ho))"

text \<open>A world in which every stream fails on every operation.\<close>

definition all_broken :: "world \<Rightarrow> world" where
  "all_broken s = s\<lparr>io_fault := (\<lambda>_. Some OSError)\<rparr>"

text \<open>
  Names for steps of \<open>close\<close>. \<open>close_step\<close> is the world one loop iteration leaves,
  \<open>close_world\<close> the world after the three loops. \<open>pending s n h\<close> says of a handler
  that it is attached to \<open>n\<close> and allocated, or released already.
\<close>

definition close_step :: "string \<Rightarrow> nat \<Rightarrow> world \<Rightarrow> world" where
  "close_step lg h s = removeHandler lg h (snd (handler_close h s))"

definition pending :: "world \<Rightarrow> string \<Rightarrow> nat \<Rightarrow> bool" where
  "pending s n h \<longleftrightarrow>
     (h \<in> set (lg_handlers (loggers s n)) \<and> handler_heap s h \<noteq> None) \<or> released s h"

definition close_world :: "router \<Rightarrow> world \<Rightarrow> world" where
  "close_world self s =
     snd (close_logger (error_logger self)
       (snd (close_logger (stdout_logger self) (snd (close_logger (stdin_logger self) s)))))"

text \<open>
  \<open>fresh_sink s s' n p\<close>: in \<open>s'\<close> the logger \<open>n\<close> carries one or two handlers, all
  of them objects allocated after \<open>s\<close>; the first is a file handler on \<open>p\<close>, the
  second, if there is one, a different object and a console handler.
\<close>

definition fresh_sink :: "world \<Rightarrow> world \<Rightarrow> string \<Rightarrow> string \<Rightarrow> bool" where
  "fresh_sink s s' n p \<longleftrightarrow>
     (case lg_handlers (loggers s' n) of
        [fh] \<Rightarrow> next_id s \<le> fh \<and> handler_sig s' fh = Some (LogFile p, NOTSET)
      | [fh, ch] \<Rightarrow> next_id s \<le> fh \<and> next_id s \<le> ch \<and> fh \<noteq> ch
                    \<and> handler_sig s' fh = Some (LogFile p, NOTSET)
                    \<and> (case handler_sig s' ch of None \<Rightarrow> False | Some sg \<Rightarrow> is_console (fst sg))
      | _ \<Rightarrow> False)"

text \<open>What is attached to a logger: the target and level of each of its handlers, in
  order.\<close>

definition attached :: "world \<Rightarrow> string \<Rightarrow> (target \<times> nat) option list" where
  "attached s n = map (handler_sig s) (lg_handlers (loggers s n))"

text \<open>
  Use of a Logger object after its construction: a sequence of calls of its methods,
  each with the exception being handled at the call.
\<close>

datatype call =
    Debug pymsg bool | Info pymsg bool | Warning pymsg bool | Error pymsg bool
  | Critical pymsg bool | Exception pymsg bool | Stdin pymsg bool
  | LogError pyexc string | Close

fun do_call :: "router \<Rightarrow> call \<Rightarrow> exc_ctx option \<Rightarrow> world \<Rightarrow> world" where
  "do_call self (Debug m ei) amb s = debug self m ei amb s"
| "do_call self (Info m ei) amb s = info self m ei amb s"
| "do_call self (Warning m ei) amb s = warning self m ei amb s"
| "do_call self (Error m ei) amb s = error self m ei amb s"
| "do_call self (Critical m ei) amb s = critical self m ei amb s"
| "do_call self (Exception m ei) amb s = exception self m ei amb s"
| "do_call self (Stdin m ei) amb s = stdin self m ei amb s"
| "do_call self (LogError err now) amb s = snd (log_error self err amb now s)"
| "do_call self Close amb s = snd (close self s)"

definition run :: "router \<Rightarrow> (call \<times> exc_ctx option) list \<Rightarrow> world \<Rightarrow> world" where
  "run self calls s = fold (\<lambda>c. do_call self (fst c) (snd c)) calls s"

text \<open>Constructor arguments with the name of \<open>cfg_app\<close> and another directory, and
  with another name.\<close>

definition cfg_other_dir :: config where
  "cfg_other_dir =
     \<lparr>cfg_log_dir = ''/other'', cfg_log_name = ''test_app'', cfg_level = ''debug'',
      cfg_enable_console = False\<rparr>"

definition cfg_other_name :: config where
  "cfg_other_name =
     \<lparr>cfg_log_dir = ''/logs'', cfg_log_name = ''cleanup_test'', cfg_level = ''debug'',
      cfg_enable_console = False\<rparr>"

text \<open>A \<^verbatim>\<open>with\<close> block that logs one line and then raises.\<close>

definition failing_block :: "router \<Rightarrow> world \<Rightarrow> (failure + unit) \<times> world" where
  "failing_block log s =
     (Inl (OtherException ''boom''), info log (Text ''Testing cleanup.'') False None s)"

text \<open>The frame whose \<^verbatim>\<open>raise\<close> started the exception: the last traceback entry.\<close>

definition raise_site :: "exc_ctx \<Rightarrow> tb_entry" where
  "raise_site c = last (ctx_tb c)"

text \<open>A \<^verbatim>\<open>KeyError\<close> raised in \<^verbatim>\<open>lookup\<close> (\<^verbatim>\<open>util.py\<close>, line 42), which
  \<^verbatim>\<open>handle_request\<close> (\<^verbatim>\<open>main.py\<close>) called at line 10 inside its \<^verbatim>\<open>try\<close>.\<close>

definition key_error :: pyexc where
  "key_error = \<lparr>class_name = ''KeyError'', str_form = ''missing''\<rparr>"

definition nested_ctx :: exc_ctx where
  "nested_ctx =
     \<lparr>ctx_exc = key_error,
      ctx_tb = [\<lparr>co_filename = ''/app/main.py'', tb_lineno = 10, co_name = ''handle_request''\<rparr>,
                \<lparr>co_filename = ''/app/lib/util.py'', tb_lineno = 42, co_name = ''lookup''\<rparr>],
      ctx_text = ''Traceback (most recent call last): ...''\<rparr>"

text \<open>The same \<^verbatim>\<open>KeyError\<close> raised in the \<^verbatim>\<open>try\<close> block itself.\<close>

definition direct_ctx :: exc_ctx where
  "direct_ctx =
     \<lparr>ctx_exc = key_error,
      ctx_tb = [\<lparr>co_filename = ''/app/main.py'', tb_lineno = 12, co_name = ''handle_request''\<rparr>],
      ctx_text = ''Traceback (most recent call last): ...''\<rparr>"

section \<open>Facts about the platform model\<close>

lemmas level_defs = NOTSET_def DEBUG_def INFO_def WARNING_def ERROR_def CRITICAL_def

lemma level_of_cases:
  "level_of l = DEBUG \<or> level_of l = INFO \<or> level_of l = WARNING \<or> level_of l = ERROR \<or> level_of l = CRITICAL"
  by (simp add: level_of_def LEVEL_MAP_def split: option.splits if_splits)

lemma level_of_pos: "level_of l \<noteq> NOTSET"
  using level_of_cases [of l] by (auto simp: level_defs)

lemma pylogger_all_updates:
  "(r::pylogger)\<lparr>lg_level := a, lg_propagate := b, lg_handlers := c\<rparr> =
     \<lparr>lg_level = a, lg_handlers = c, lg_propagate = b\<rparr>"
  by (cases r) simp

lemma build_logger_fst: "fst (build_logger n p lv ec ce s) = n"
  by (simp add: build_logger_def Let_def new_handler_def split: prod.splits)

lemma build_logger_loggers:
  "loggers (snd (build_logger n p lv ec ce s)) =
     (loggers s)(n := \<lparr>lg_level = level_of lv,
        lg_handlers = (if ec then [next_id s, Suc (next_id s)] else [next_id s]),
        lg_propagate = False\<rparr>)"
  by (simp add: build_logger_def Let_def new_handler_def setLevel_def handlers_clear_def
      set_propagate_def addHandler_def handler_setLevel_def pylogger_all_updates split: prod.splits)

lemma build_logger_heap:
  "handler_heap (snd (build_logger n p lv ec ce s)) =
     (if ec then (handler_heap s)(next_id s \<mapsto> \<lparr>h_target = LogFile p, h_level = NOTSET, h_open = False, h_closed = False\<rparr>,
                                  Suc (next_id s) \<mapsto> \<lparr>h_target = (if ce then SysStderr else SysStdout), h_level = level_of lv, h_open = True, h_closed = False\<rparr>)
      else (handler_heap s)(next_id s \<mapsto> \<lparr>h_target = LogFile p, h_level = NOTSET, h_open = False, h_closed = False\<rparr>))"
  by (simp add: build_logger_def Let_def new_handler_def setLevel_def handlers_clear_def
      set_propagate_def addHandler_def handler_setLevel_def split: prod.splits)

lemma build_logger_next:
  "next_id (snd (build_logger n p lv ec ce s)) = (if ec then Suc (Suc (next_id s)) else Suc (next_id s))"
  by (simp add: build_logger_def Let_def new_handler_def setLevel_def handlers_clear_def
      set_propagate_def addHandler_def handler_setLevel_def split: prod.splits)

lemma build_logger_frame:
  "files (snd (build_logger n p lv ec ce s)) = files s"
  "sys_stdout (snd (build_logger n p lv ec ce s)) = sys_stdout s"
  "sys_stderr (snd (build_logger n p lv ec ce s)) = sys_stderr s"
  "io_fault (snd (build_logger n p lv ec ce s)) = io_fault s"
  "root_logger (snd (build_logger n p lv ec ce s)) = root_logger s"
  by (simp_all add: build_logger_def Let_def new_handler_def setLevel_def handlers_clear_def
      set_propagate_def addHandler_def handler_setLevel_def split: prod.splits)

lemma handler_sig_build_logger:
  "handler_sig (snd (build_logger n p lv ec ce s)) =
     (if ec then (handler_sig s)(next_id s \<mapsto> (LogFile p, NOTSET),
                                 Suc (next_id s) \<mapsto> (if ce then SysStderr else SysStdout, level_of lv))
      else (handler_sig s)(next_id s \<mapsto> (LogFile p, NOTSET)))"
  by (rule ext) (simp add: handler_sig_def build_logger_heap)

text \<open>What one handler does to the world.\<close>

lemma handler_handle_frame:
  "loggers (handler_handle e h s) = loggers s"
  "root_logger (handler_handle e h s) = root_logger s"
  "io_fault (handler_handle e h s) = io_fault s"
  "next_id (handler_handle e h s) = next_id s"
  "handler_sig (handler_handle e h s) = handler_sig s"
  by (auto simp: handler_handle_def handler_emit_def write_target_def handler_sig_def fun_eq_iff
      split: option.splits target.splits)

lemma handler_handle_console:
  assumes "handler_sig s h = Some sg" "is_console (fst sg)"
  shows "files (handler_handle e h s) = files s"
  using assms
  by (auto simp: handler_handle_def handler_emit_def write_target_def handler_sig_def is_console_def
      split: option.splits target.splits)

lemma handler_handle_file:
  assumes "handler_sig s h = Some (LogFile p, NOTSET)" "io_fault s (LogFile p) = None"
  shows "files (handler_handle e h s) = (files s)(p \<mapsto> file_content s p @ [e])"
    and "sys_stdout (handler_handle e h s) = sys_stdout s"
    and "sys_stderr (handler_handle e h s) = sys_stderr s"
  using assms
  by (auto simp: handler_handle_def handler_emit_def write_target_def handler_sig_def NOTSET_def
      file_content_def split: option.splits target.splits)

lemma fold_handle_frame:
  "loggers (fold (handler_handle e) hs s) = loggers s"
  "root_logger (fold (handler_handle e) hs s) = root_logger s"
  "io_fault (fold (handler_handle e) hs s) = io_fault s"
  "next_id (fold (handler_handle e) hs s) = next_id s"
  "handler_sig (fold (handler_handle e) hs s) = handler_sig s"
  by (induction hs arbitrary: s; simp add: handler_handle_frame)+

lemma fold_handle_console:
  "list_all (\<lambda>h. case handler_sig s h of None \<Rightarrow> False | Some sg \<Rightarrow> is_console (fst sg)) hs
   \<Longrightarrow> files (fold (handler_handle e) hs s) = files s"
proof (induction hs arbitrary: s)
  case Nil
  then show ?case by simp
next
  case (Cons h hs)
  from Cons.prems obtain sg where sg: "handler_sig s h = Some sg" "is_console (fst sg)"
    by (auto split: option.splits)
  have "files (fold (handler_handle e) hs (handler_handle e h s)) = files (handler_handle e h s)"
    using Cons.prems by (intro Cons.IH) (simp add: handler_handle_frame)
  then show ?case using sg by (simp add: handler_handle_console)
qed

lemma write_target_frame:
  "loggers (write_target t e s) = loggers s"
  "root_logger (write_target t e s) = root_logger s"
  "io_fault (write_target t e s) = io_fault s"
  "next_id (write_target t e s) = next_id s"
  "handler_sig (write_target t e s) = handler_sig s"
  by (auto simp: write_target_def handler_sig_def fun_eq_iff split: target.splits)

lemma logger_log_frame:
  "loggers (logger_log n lvl m ei amb s) = loggers s"
  "root_logger (logger_log n lvl m ei amb s) = root_logger s"
  "io_fault (logger_log n lvl m ei amb s) = io_fault s"
  "next_id (logger_log n lvl m ei amb s) = next_id s"
  "handler_sig (logger_log n lvl m ei amb s) = handler_sig s"
  by (simp_all add: logger_log_def callHandlers_def Let_def fold_handle_frame write_target_frame)

lemma effective_level_own:
  "lg_level (loggers s n) \<noteq> NOTSET \<Longrightarrow> getEffectiveLevel s n = lg_level (loggers s n)"
  by (simp add: getEffectiveLevel_def lineage_def)

lemma logger_log_filtered:
  "lg_level (loggers s n) \<noteq> NOTSET \<Longrightarrow> \<not> lg_level (loggers s n) \<le> lvl
   \<Longrightarrow> logger_log n lvl m ei amb s = s"
  by (simp add: logger_log_def isEnabledFor_def effective_level_own)

lemma logger_log_own_handlers:
  assumes "lg_level (loggers s n) \<noteq> NOTSET" "\<not> lg_propagate (loggers s n)"
    "lg_handlers (loggers s n) \<noteq> []" "lg_level (loggers s n) \<le> lvl"
  shows "logger_log n lvl m ei amb s =
     fold (handler_handle (makeRecord lvl m ei amb)) (lg_handlers (loggers s n)) s"
  using assms
  by (simp add: logger_log_def isEnabledFor_def effective_level_own callHandlers_def lineage_def)

lemma logger_log_files:
  assumes ok: "sink_ok s n p" and lvl: "lg_level (loggers s n) \<le> lvl"
  shows "files (logger_log n lvl m ei amb s) =
     (files s)(p \<mapsto> file_content s p @ [makeRecord lvl m ei amb])"
proof -
  let ?e = "makeRecord lvl m ei amb"
  from ok obtain fh rest where hs: "lg_handlers (loggers s n) = fh # rest"
    and fh: "handler_sig s fh = Some (LogFile p, NOTSET)"
    and rest: "list_all (\<lambda>h. case handler_sig s h of None \<Rightarrow> False
                              | Some sg \<Rightarrow> is_console (fst sg)) rest"
    by (auto simp: sink_ok_def split: list.splits)
  from ok have flt: "io_fault s (LogFile p) = None" and np: "\<not> lg_propagate (loggers s n)"
    and nz: "lg_level (loggers s n) \<noteq> NOTSET"
    by (simp_all add: sink_ok_def)
  have "logger_log n lvl m ei amb s = fold (handler_handle ?e) rest (handler_handle ?e fh s)"
    using logger_log_own_handlers [OF nz np _ lvl, of m ei amb] hs by simp
  moreover have "files (fold (handler_handle ?e) rest (handler_handle ?e fh s)) =
      files (handler_handle ?e fh s)"
    using rest by (intro fold_handle_console) (simp add: handler_handle_frame)
  ultimately show ?thesis
    using handler_handle_file(1) [OF fh flt] by simp
qed

lemma sink_ok_logger_log:
  "sink_ok (logger_log n lvl m ei amb s) n' p' = sink_ok s n' p'"
  by (simp add: sink_ok_def logger_log_frame cong: list.case_cong)

lemma wired_logger_log: "wired self (logger_log n lvl m ei amb s) = wired self s"
  by (simp add: wired_def sink_ok_logger_log)

text \<open>Names and paths of one Logger object.\<close>

lemma path_join_inject:
  assumes "path_join d (n @ x) = path_join d (n @ y)" "x \<noteq> []" "y \<noteq> []"
    "hd x = hd y"
  shows "x = y"
proof -
  have "hd (n @ x) = hd (n @ y)" using assms by (cases n) auto
  moreover have "n @ x \<noteq> []" "n @ y \<noteq> []" using assms by auto
  ultimately have "n @ x = n @ y"
    using assms(1) by (auto simp: path_join_def split: if_splits)
  then show ?thesis by simp
qed

lemma router_paths_distinct:
  "stdin_path (router_of cfg) \<noteq> stdout_path (router_of cfg)"
  "stdin_path (router_of cfg) \<noteq> error_path (router_of cfg)"
  "stdout_path (router_of cfg) \<noteq> error_path (router_of cfg)"
  by (auto simp: router_of_def dest!: path_join_inject)

lemma Logger_init_router: "fst (Logger_init cfg s) = router_of cfg"
  using build_logger_fst
  by (simp add: Logger_init_def router_of_def Let_def split: prod.splits) (metis fst_conv)

lemma Logger_init_snd:
  "snd (Logger_init cfg s) =
     snd (build_logger (cfg_log_name cfg @ ''.error'') (error_path (router_of cfg)) (cfg_level cfg)
            (cfg_enable_console cfg) True
       (snd (build_logger (cfg_log_name cfg @ ''.stdout'') (stdout_path (router_of cfg)) (cfg_level cfg)
              (cfg_enable_console cfg) False
         (snd (build_logger (cfg_log_name cfg @ ''.stdin'') (stdin_path (router_of cfg)) (cfg_level cfg)
                False False s)))))"
  by (simp add: Logger_init_def router_of_def Let_def split: prod.splits)

text \<open>The handler identities a construction hands out, counted from \<open>next_id\<close>.\<close>

lemma Logger_init_loggers:
  "loggers (snd (Logger_init cfg s)) =
     (loggers s)
       (cfg_log_name cfg @ ''.stdin'' :=
          \<lparr>lg_level = level_of (cfg_level cfg), lg_handlers = [next_id s], lg_propagate = False\<rparr>,
        cfg_log_name cfg @ ''.stdout'' :=
          \<lparr>lg_level = level_of (cfg_level cfg),
           lg_handlers = (if cfg_enable_console cfg then [next_id s + 1, next_id s + 2]
                          else [next_id s + 1]),
           lg_propagate = False\<rparr>,
        cfg_log_name cfg @ ''.error'' :=
          \<lparr>lg_level = level_of (cfg_level cfg),
           lg_handlers = (if cfg_enable_console cfg then [next_id s + 3, next_id s + 4]
                          else [next_id s + 2]),
           lg_propagate = False\<rparr>)"
  by (simp add: Logger_init_snd build_logger_loggers build_logger_next eval_nat_numeral)

lemma Logger_init_sig:
  "handler_sig (snd (Logger_init cfg s)) =
     (if cfg_enable_console cfg then
        (handler_sig s)
          (next_id s \<mapsto> (LogFile (stdin_path (router_of cfg)), NOTSET),
           next_id s + 1 \<mapsto> (LogFile (stdout_path (router_of cfg)), NOTSET),
           next_id s + 2 \<mapsto> (SysStdout, level_of (cfg_level cfg)),
           next_id s + 3 \<mapsto> (LogFile (error_path (router_of cfg)), NOTSET),
           next_id s + 4 \<mapsto> (SysStderr, level_of (cfg_level cfg)))
      else
        (handler_sig s)
          (next_id s \<mapsto> (LogFile (stdin_path (router_of cfg)), NOTSET),
           next_id s + 1 \<mapsto> (LogFile (stdout_path (router_of cfg)), NOTSET),
           next_id s + 2 \<mapsto> (LogFile (error_path (router_of cfg)), NOTSET)))"
  by (simp add: Logger_init_snd handler_sig_build_logger build_logger_next eval_nat_numeral)

lemma Logger_init_frame:
  "files (snd (Logger_init cfg s)) = files s"
  "sys_stdout (snd (Logger_init cfg s)) = sys_stdout s"
  "sys_stderr (snd (Logger_init cfg s)) = sys_stderr s"
  "io_fault (snd (Logger_init cfg s)) = io_fault s"
  "root_logger (snd (Logger_init cfg s)) = root_logger s"
  by (simp_all add: Logger_init_snd build_logger_frame)

lemma wired_Logger_init:
  assumes "io_fault s (LogFile (stdin_path (router_of cfg))) = None"
    "io_fault s (LogFile (stdout_path (router_of cfg))) = None"
    "io_fault s (LogFile (error_path (router_of cfg))) = None"
  shows "wired (router_of cfg) (snd (Logger_init cfg s))"
proof -
  have names: "stdin_logger (router_of cfg) = cfg_log_name cfg @ ''.stdin''"
    "stdout_logger (router_of cfg) = cfg_log_name cfg @ ''.stdout''"
    "error_logger (router_of cfg) = cfg_log_name cfg @ ''.error''"
    by (simp_all add: router_of_def)
  show ?thesis
    unfolding wired_def sink_ok_def names
    using assms level_of_pos [of "cfg_level cfg"]
    by (simp add: Logger_init_loggers Logger_init_sig Logger_init_frame is_console_def)
qed

lemma untouched_other:
  "appends_only s s' p e \<Longrightarrow> q \<noteq> p \<Longrightarrow> untouched s s' q"
  by (simp add: appends_only_def untouched_def)

lemma logger_log_routes:
  assumes "sink_ok s n p"
  shows "lg_level (loggers s n) \<le> lvl \<Longrightarrow>
           appends_only s (logger_log n lvl m ei amb s) p (makeRecord lvl m ei amb)"
    and "\<not> lg_level (loggers s n) \<le> lvl \<Longrightarrow> logger_log n lvl m ei amb s = s"
    and "q \<noteq> p \<Longrightarrow> untouched s (logger_log n lvl m ei amb s) q"
proof -
  show a: "lg_level (loggers s n) \<le> lvl \<Longrightarrow>
           appends_only s (logger_log n lvl m ei amb s) p (makeRecord lvl m ei amb)"
    using assms by (simp add: appends_only_def logger_log_files)
  show b: "\<not> lg_level (loggers s n) \<le> lvl \<Longrightarrow> logger_log n lvl m ei amb s = s"
    using assms by (intro logger_log_filtered) (simp_all add: sink_ok_def)
  show "q \<noteq> p \<Longrightarrow> untouched s (logger_log n lvl m ei amb s) q"
    using a b untouched_other [of s _ p _ q]
    by (cases "lg_level (loggers s n) \<le> lvl") (auto simp: untouched_def)
qed

text \<open>The Logger object and world of a first construction in a fresh process.\<close>

lemma level_of_literals:
  "level_of ''debug'' = DEBUG" "level_of ''DEBUG'' = DEBUG" "level_of ''info'' = INFO"
  "level_of ''warning'' = WARNING" "level_of ''error'' = ERROR"
  "level_of ''critical'' = CRITICAL" "level_of ''Critical'' = CRITICAL"
  by code_simp+

lemma built_router: "fst (built level console) = router_of (cfg_app level console)"
  by (simp add: built_def Logger_init_router)

lemma built_wired: "wired (fst (built level console)) (snd (built level console))"
  unfolding built_router unfolding built_def
  by (rule wired_Logger_init) (simp_all add: world0_def)

lemma built_level:
  "lg_level (loggers (snd (built level console)) (stdin_logger (fst (built level console)))) = level_of level"
  "lg_level (loggers (snd (built level console)) (stdout_logger (fst (built level console)))) = level_of level"
  "lg_level (loggers (snd (built level console)) (error_logger (fst (built level console)))) = level_of level"
  unfolding built_router unfolding built_def
  by (simp_all add: Logger_init_loggers router_of_def cfg_app_def)

lemma built_files: "files (snd (built level console)) = (\<lambda>_. None)"
  by (simp add: built_def Logger_init_frame world0_def)

lemma wired_do_call:
  "c \<noteq> Close \<Longrightarrow> wired self (do_call self c amb s) = wired self s"
  by (cases c)
    (simp_all add: debug_def info_def warning_def error_def critical_def exception_def stdin_def
      log_error_def Let_def wired_logger_log split: prod.splits list.splits)

lemma wired_run:
  "Close \<notin> fst ` set calls \<Longrightarrow> wired self (run self calls s) = wired self s"
  unfolding run_def
  by (induction calls arbitrary: s) (auto simp: wired_do_call)

section \<open>C1: each leveled call reaches one file\<close>

text \<open>
  C1, as it holds. For a Logger object whose three sinks are wired as construction
  leaves them: \<^verbatim>\<open>debug\<close>, \<^verbatim>\<open>info\<close> and \<^verbatim>\<open>warning\<close> never change the fault file or
  the ingress file, and when the output sink's minimum level admits the call they append
  exactly one record, carrying the message at the call's level, to the output file and
  change no other file; \<^verbatim>\<open>error\<close> and \<^verbatim>\<open>critical\<close> do the same with the fault file
  and never change the output or ingress file; \<^verbatim>\<open>stdin\<close> does the same with the
  ingress file, its record at level \<open>INFO\<close>, and never changes the output or fault file.
  The sinks stay wired through any sequence of logging calls on the object, so this
  holds for every message of such a sequence. A call whose level the sink's minimum
  level does not admit leaves the whole world as it was: it appends nothing anywhere.
\<close>

theorem leveled_calls_route_to_one_file:
  assumes "self = router_of cfg" and "wired self s"
  shows "((lg_level (loggers s (stdout_logger self)) \<le> DEBUG \<longrightarrow>
            appends_only s (debug self m ei amb s) (stdout_path self) (makeRecord DEBUG m ei amb))
       \<and> untouched s (debug self m ei amb s) (error_path self)
       \<and> untouched s (debug self m ei amb s) (stdin_path self))
    \<and> ((lg_level (loggers s (stdout_logger self)) \<le> INFO \<longrightarrow>
            appends_only s (info self m ei amb s) (stdout_path self) (makeRecord INFO m ei amb))
       \<and> untouched s (info self m ei amb s) (error_path self)
       \<and> untouched s (info self m ei amb s) (stdin_path self))
    \<and> ((lg_level (loggers s (stdout_logger self)) \<le> WARNING \<longrightarrow>
            appends_only s (warning self m ei amb s) (stdout_path self) (makeRecord WARNING m ei amb))
       \<and> untouched s (warning self m ei amb s) (error_path self)
       \<and> untouched s (warning self m ei amb s) (stdin_path self))
    \<and> ((lg_level (loggers s (error_logger self)) \<le> ERROR \<longrightarrow>
            appends_only s (error self m ei amb s) (error_path self) (makeRecord ERROR m ei amb))
       \<and> untouched s (error self m ei amb s) (stdout_path self)
       \<and> untouched s (error self m ei amb s) (stdin_path self))
    \<and> ((lg_level (loggers s (error_logger self)) \<le> CRITICAL \<longrightarrow>
            appends_only s (critical self m ei amb s) (error_path self) (makeRecord CRITICAL m ei amb))
       \<and> untouched s (critical self m ei amb s) (stdout_path self)
       \<and> untouched s (critical self m ei amb s) (stdin_path self))
    \<and> ((lg_level (loggers s (stdin_logger self)) \<le> INFO \<longrightarrow>
            appends_only s (stdin self m ei amb s) (stdin_path self) (makeRecord INFO m ei amb))
       \<and> untouched s (stdin self m ei amb s) (stdout_path self)
       \<and> untouched s (stdin self m ei amb s) (error_path self))
    \<and> (\<forall>calls. Close \<notin> fst ` set calls \<longrightarrow> wired self (run self calls s))
    \<and> (\<not> lg_level (loggers s (stdout_logger self)) \<le> DEBUG \<longrightarrow> debug self m ei amb s = s)
    \<and> (\<not> lg_level (loggers s (stdout_logger self)) \<le> INFO \<longrightarrow> info self m ei amb s = s)
    \<and> (\<not> lg_level (loggers s (stdout_logger self)) \<le> WARNING \<longrightarrow> warning self m ei amb s = s)
    \<and> (\<not> lg_level (loggers s (error_logger self)) \<le> ERROR \<longrightarrow> error self m ei amb s = s)
    \<and> (\<not> lg_level (loggers s (error_logger self)) \<le> CRITICAL \<longrightarrow> critical self m ei amb s = s)
    \<and> (\<not> lg_level (loggers s (stdin_logger self)) \<le> INFO \<longrightarrow> stdin self m ei amb s = s)"
proof -
  note d = router_paths_distinct [of cfg] router_paths_distinct [of cfg, symmetric]
  have out: "sink_ok s (stdout_logger self) (stdout_path self)"
    and err: "sink_ok s (error_logger self) (error_path self)"
    and inp: "sink_ok s (stdin_logger self) (stdin_path self)"
    using assms(2) by (simp_all add: wired_def)
  have later: "\<forall>calls. Close \<notin> fst ` set calls \<longrightarrow> wired self (run self calls s)"
    using assms(2) by (simp add: wired_run)
  have below:
    "\<not> lg_level (loggers s (stdout_logger self)) \<le> DEBUG \<longrightarrow> debug self m ei amb s = s"
    "\<not> lg_level (loggers s (stdout_logger self)) \<le> INFO \<longrightarrow> info self m ei amb s = s"
    "\<not> lg_level (loggers s (stdout_logger self)) \<le> WARNING \<longrightarrow> warning self m ei amb s = s"
    "\<not> lg_level (loggers s (error_logger self)) \<le> ERROR \<longrightarrow> error self m ei amb s = s"
    "\<not> lg_level (loggers s (error_logger self)) \<le> CRITICAL \<longrightarrow> critical self m ei amb s = s"
    "\<not> lg_level (loggers s (stdin_logger self)) \<le> INFO \<longrightarrow> stdin self m ei amb s = s"
    unfolding debug_def info_def warning_def error_def critical_def stdin_def
    using logger_log_routes(2) [OF out] logger_log_routes(2) [OF err] logger_log_routes(2) [OF inp]
    by simp_all
  have routed: "((lg_level (loggers s (stdout_logger self)) \<le> DEBUG \<longrightarrow>
            appends_only s (debug self m ei amb s) (stdout_path self) (makeRecord DEBUG m ei amb))
       \<and> untouched s (debug self m ei amb s) (error_path self)
       \<and> untouched s (debug self m ei amb s) (stdin_path self))
    \<and> ((lg_level (loggers s (stdout_logger self)) \<le> INFO \<longrightarrow>
            appends_only s (info self m ei amb s) (stdout_path self) (makeRecord INFO m ei amb))
       \<and> untouched s (info self m ei amb s) (error_path self)
       \<and> untouched s (info self m ei amb s) (stdin_path self))
    \<and> ((lg_level (loggers s (stdout_logger self)) \<le> WARNING \<longrightarrow>
            appends_only s (warning self m ei amb s) (stdout_path self) (makeRecord WARNING m ei amb))
       \<and> untouched s (warning self m ei amb s) (error_path self)
       \<and> untouched s (warning self m ei amb s) (stdin_path self))
    \<and> ((lg_level (loggers s (error_logger self)) \<le> ERROR \<longrightarrow>
            appends_only s (error self m ei amb s) (error_path self) (makeRecord ERROR m ei amb))
       \<and> untouched s (error self m ei amb s) (stdout_path self)
       \<and> untouched s (error self m ei amb s) (stdin_path self))
    \<and> ((lg_level (loggers s (error_logger self)) \<le> CRITICAL \<longrightarrow>
            appends_only s (critical self m ei amb s) (error_path self) (makeRecord CRITICAL m ei amb))
       \<and> untouched s (critical self m ei amb s) (stdout_path self)
       \<and> untouched s (critical self m ei amb s) (stdin_path self))
    \<and> ((lg_level (loggers s (stdin_logger self)) \<le> INFO \<longrightarrow>
            appends_only s (stdin self m ei amb s) (stdin_path self) (makeRecord INFO m ei amb))
       \<and> untouched s (stdin self m ei amb s) (stdout_path self)
       \<and> untouched s (stdin self m ei amb s) (error_path self))"
    unfolding debug_def info_def warning_def error_def critical_def stdin_def
    using logger_log_routes(1) [OF out] logger_log_routes(3) [OF out]
      logger_log_routes(1) [OF err] logger_log_routes(3) [OF err]
      logger_log_routes(1) [OF inp] logger_log_routes(3) [OF inp] d
    unfolding assms(1) by simp
  from routed later below show ?thesis by blast
qed

text \<open>The hypotheses are met right after construction, and the calls of the routing
  scenario land where the theorem says.\<close>

theorem leveled_calls_route_to_one_file_witness:
  "wired (fst (built ''DEBUG'' False)) (snd (built ''DEBUG'' False))
   \<and> appends_only (snd (built ''DEBUG'' False))
       (info (fst (built ''DEBUG'' False)) (Text ''The process is running.'') False None
          (snd (built ''DEBUG'' False)))
       (stdout_path (fst (built ''DEBUG'' False)))
       (makeRecord INFO (Text ''The process is running.'') False None)
   \<and> untouched (snd (built ''DEBUG'' False))
       (info (fst (built ''DEBUG'' False)) (Text ''The process is running.'') False None
          (snd (built ''DEBUG'' False)))
       (error_path (fst (built ''DEBUG'' False)))
   \<and> appends_only (snd (built ''DEBUG'' False))
       (stdin (fst (built ''DEBUG'' False)) (Text ''User input received.'') False None
          (snd (built ''DEBUG'' False)))
       (stdin_path (fst (built ''DEBUG'' False)))
       (makeRecord INFO (Text ''User input received.'') False None)
   \<and> file_content
       (info (fst (built ''DEBUG'' False)) (Text ''The process is running.'') False None
          (snd (built ''DEBUG'' False)))
       (stdout_path (fst (built ''DEBUG'' False)))
     = [\<lparr>rec_levelno = 20, rec_msg = Text ''The process is running.'', rec_exc_info = None\<rparr>]
   \<and> wired (fst (built ''error'' False)) (snd (built ''error'' False))
   \<and> \<not> lg_level (loggers (snd (built ''error'' False)) (stdout_logger (fst (built ''error'' False))))
         \<le> WARNING
   \<and> warning (fst (built ''error'' False)) (Text ''Potential issue detected.'') False None
         (snd (built ''error'' False)) = snd (built ''error'' False)"
  using leveled_calls_route_to_one_file [OF built_router built_wired,
      of "''DEBUG''" False "Text ''The process is running.''" False None]
    leveled_calls_route_to_one_file [OF built_router built_wired,
      of "''DEBUG''" False "Text ''User input received.''" False None]
    leveled_calls_route_to_one_file [OF built_router built_wired,
      of "''error''" False "Text ''Potential issue detected.''" False None]
  by (simp add: built_wired built_level level_of_literals level_defs appends_only_def
      file_content_def built_files makeRecord_def)

text \<open>
  C1 as stated has every \<^verbatim>\<open>info\<close> message appended to the output file. Constructed
  with level \<^verbatim>\<open>"error"\<close>, the output sink drops the call: the output file stays empty.
\<close>

theorem info_below_level_counterexample:
  "file_content
     (info (fst (built ''error'' False)) (Text ''The process is running.'') False None
        (snd (built ''error'' False)))
     (stdout_path (fst (built ''error'' False))) = []"
proof -
  have "info (fst (built ''error'' False)) (Text ''The process is running.'') False None
          (snd (built ''error'' False)) = snd (built ''error'' False)"
    unfolding info_def
    by (rule logger_log_filtered) (simp_all add: built_level level_of_literals level_defs)
  then show ?thesis by (simp add: file_content_def built_files)
qed

section \<open>Facts about the fault sink and \<open>log_error\<close>\<close>

lemma log_error_fst:
  "fst (log_error self err amb now s) =
     \<lparr>exception_type = class_name err, exception_message = str_form err,
      filename = (case (case amb of None \<Rightarrow> [] | Some c \<Rightarrow> ctx_tb c) of
                    [] \<Rightarrow> ''<unknown>'' | fr # _ \<Rightarrow> basename (co_filename fr)),
      lineno = (case (case amb of None \<Rightarrow> [] | Some c \<Rightarrow> ctx_tb c) of
                  [] \<Rightarrow> - 1 | fr # _ \<Rightarrow> tb_lineno fr),
      function_name = (case (case amb of None \<Rightarrow> [] | Some c \<Rightarrow> ctx_tb c) of
                         [] \<Rightarrow> ''<unknown>'' | fr # _ \<Rightarrow> co_name fr),
      timestamp = now, traceback = format_exc amb\<rparr>"
  by (simp add: log_error_def Let_def split: list.splits prod.splits)

lemma log_error_snd:
  "snd (log_error self err amb now s) =
     error self (Dict (fst (log_error self err amb now s))) True amb s"
  by (simp add: log_error_def Let_def split: list.splits prod.splits)

lemma error_sink_entry:
  assumes self: "self = router_of cfg" and w: "wired self s"
    and l: "lg_level (loggers s (error_logger self)) \<le> lvl"
  shows "appends_only s (logger_log (error_logger self) lvl m ei amb s) (error_path self)
           (makeRecord lvl m ei amb)
       \<and> untouched s (logger_log (error_logger self) lvl m ei amb s) (stdout_path self)
       \<and> untouched s (logger_log (error_logger self) lvl m ei amb s) (stdin_path self)"
proof -
  from w have ok: "sink_ok s (error_logger self) (error_path self)"
    by (simp add: wired_def)
  have "stdout_path self \<noteq> error_path self" "stdin_path self \<noteq> error_path self"
    using router_paths_distinct [of cfg] by (simp_all add: self)
  then show ?thesis
    using logger_log_routes(1) [OF ok l] logger_log_routes(3) [OF ok] by simp
qed

section \<open>C2: the report of \<open>log_error\<close> and its entry in the fault file\<close>

text \<open>
  C2, as it holds. For every exception \<open>err\<close> passed to \<^verbatim>\<open>log_error\<close>, the returned
  mapping's \<^verbatim>\<open>exception_type\<close> is the class name of \<open>err\<close> and its
  \<^verbatim>\<open>exception_message\<close> is \<^verbatim>\<open>str(err)\<close>. When the Logger object's sinks are wired
  as construction leaves them and the fault sink's minimum level is at most \<open>ERROR\<close>,
  the call appends exactly one record to the fault file: at level \<open>ERROR\<close>, its message
  the returned mapping itself, with the exception information of the call attached; the
  output and ingress files stay as they were. When the sinks are wired and the fault
  sink's minimum level is above \<open>ERROR\<close>, the call still returns the mapping and leaves
  the whole world as it was: nothing is written.
\<close>

theorem log_error_report_and_entry:
  "exception_type (fst (log_error self err amb now s)) = class_name err
   \<and> exception_message (fst (log_error self err amb now s)) = str_form err
   \<and> (self = router_of cfg \<and> wired self s \<and> lg_level (loggers s (error_logger self)) \<le> ERROR
        \<longrightarrow> appends_only s (snd (log_error self err amb now s)) (error_path self)
              \<lparr>rec_levelno = ERROR, rec_msg = Dict (fst (log_error self err amb now s)),
               rec_exc_info = Some amb\<rparr>
          \<and> untouched s (snd (log_error self err amb now s)) (stdout_path self)
          \<and> untouched s (snd (log_error self err amb now s)) (stdin_path self))
   \<and> (wired self s \<and> \<not> lg_level (loggers s (error_logger self)) \<le> ERROR
        \<longrightarrow> snd (log_error self err amb now s) = s)"
proof -
  have "snd (log_error self err amb now s) = s"
    if w: "wired self s" and l: "\<not> lg_level (loggers s (error_logger self)) \<le> ERROR"
  proof -
    from w have ok: "sink_ok s (error_logger self) (error_path self)"
      by (simp add: wired_def)
    show ?thesis
      unfolding log_error_snd error_def by (rule logger_log_routes(2) [OF ok l])
  qed
  moreover have "appends_only s (snd (log_error self err amb now s)) (error_path self)
          \<lparr>rec_levelno = ERROR, rec_msg = Dict (fst (log_error self err amb now s)),
           rec_exc_info = Some amb\<rparr>
        \<and> untouched s (snd (log_error self err amb now s)) (stdout_path self)
        \<and> untouched s (snd (log_error self err amb now s)) (stdin_path self)"
    if self: "self = router_of cfg" and w: "wired self s"
      and l: "lg_level (loggers s (error_logger self)) \<le> ERROR"
    unfolding log_error_snd error_def
    using error_sink_entry [OF self w l, of "Dict (fst (log_error self err amb now s))" True amb]
    by (simp add: makeRecord_def)
  moreover have "exception_type (fst (log_error self err amb now s)) = class_name err"
    and "exception_message (fst (log_error self err amb now s)) = str_form err"
    by (simp_all add: log_error_fst)
  ultimately show ?thesis by blast
qed

text \<open>A \<^verbatim>\<open>KeyError\<close> logged right after a construction at level \<^verbatim>\<open>"debug"\<close>.\<close>

theorem log_error_report_and_entry_witness:
  "fst (built ''debug'' False) = router_of (cfg_app ''debug'' False)
   \<and> wired (fst (built ''debug'' False)) (snd (built ''debug'' False))
   \<and> lg_level (loggers (snd (built ''debug'' False)) (error_logger (fst (built ''debug'' False)))) \<le> ERROR
   \<and> exception_type (fst (log_error (fst (built ''debug'' False)) key_error (Some nested_ctx)
        ''2026-01-01 00:00:00'' (snd (built ''debug'' False)))) = ''KeyError''
   \<and> file_content (snd (log_error (fst (built ''debug'' False)) key_error (Some nested_ctx)
        ''2026-01-01 00:00:00'' (snd (built ''debug'' False)))) (error_path (fst (built ''debug'' False)))
     = [\<lparr>rec_levelno = 40,
         rec_msg = Dict (fst (log_error (fst (built ''debug'' False)) key_error (Some nested_ctx)
                      ''2026-01-01 00:00:00'' (snd (built ''debug'' False)))),
         rec_exc_info = Some (Some nested_ctx)\<rparr>]
   \<and> wired (fst (built ''critical'' False)) (snd (built ''critical'' False))
   \<and> \<not> lg_level (loggers (snd (built ''critical'' False))
           (error_logger (fst (built ''critical'' False)))) \<le> ERROR
   \<and> snd (log_error (fst (built ''critical'' False)) key_error (Some nested_ctx)
        ''2026-01-01 00:00:00'' (snd (built ''critical'' False))) = snd (built ''critical'' False)
   \<and> exception_type (fst (log_error (fst (built ''critical'' False)) key_error (Some nested_ctx)
        ''2026-01-01 00:00:00'' (snd (built ''critical'' False)))) = ''KeyError''"
proof -
  have written: "fst (built ''debug'' False) = router_of (cfg_app ''debug'' False)
   \<and> wired (fst (built ''debug'' False)) (snd (built ''debug'' False))
   \<and> lg_level (loggers (snd (built ''debug'' False)) (error_logger (fst (built ''debug'' False)))) \<le> ERROR
   \<and> exception_type (fst (log_error (fst (built ''debug'' False)) key_error (Some nested_ctx)
        ''2026-01-01 00:00:00'' (snd (built ''debug'' False)))) = ''KeyError''
   \<and> file_content (snd (log_error (fst (built ''debug'' False)) key_error (Some nested_ctx)
        ''2026-01-01 00:00:00'' (snd (built ''debug'' False)))) (error_path (fst (built ''debug'' False)))
     = [\<lparr>rec_levelno = 40,
         rec_msg = Dict (fst (log_error (fst (built ''debug'' False)) key_error (Some nested_ctx)
                      ''2026-01-01 00:00:00'' (snd (built ''debug'' False)))),
         rec_exc_info = Some (Some nested_ctx)\<rparr>]"
    using log_error_report_and_entry [of "fst (built ''debug'' False)" key_error "Some nested_ctx"
        "''2026-01-01 00:00:00''" "snd (built ''debug'' False)" "cfg_app ''debug'' False"]
    by (simp add: built_router [symmetric] built_wired built_level level_of_literals level_defs
        appends_only_def file_content_def built_files key_error_def)
  have above: "\<not> lg_level (loggers (snd (built ''critical'' False))
           (error_logger (fst (built ''critical'' False)))) \<le> ERROR"
    by (simp add: built_level level_of_literals level_defs)
  note t = log_error_report_and_entry [of "fst (built ''critical'' False)" key_error
      "Some nested_ctx" "''2026-01-01 00:00:00''" "snd (built ''critical'' False)"
      "cfg_app ''critical'' False"]
  have dropped: "snd (log_error (fst (built ''critical'' False)) key_error (Some nested_ctx)
        ''2026-01-01 00:00:00'' (snd (built ''critical'' False))) = snd (built ''critical'' False)"
    using t [THEN conjunct2, THEN conjunct2, THEN conjunct2] built_wired [of "''critical''" False]
      above by blast
  have type: "exception_type (fst (log_error (fst (built ''critical'' False)) key_error
        (Some nested_ctx) ''2026-01-01 00:00:00'' (snd (built ''critical'' False)))) = ''KeyError''"
    using t [THEN conjunct1] by (simp add: key_error_def)
  from written above dropped type built_wired [of "''critical''" False] show ?thesis
    by blast
qed

text \<open>
  C2 as stated has the fault file gain an entry at every call. Constructed with level
  \<^verbatim>\<open>"critical"\<close>, the fault sink drops the \<open>ERROR\<close> record of \<^verbatim>\<open>log_error\<close>: the
  fault file stays empty.
\<close>

theorem log_error_critical_counterexample:
  "file_content
     (snd (log_error (fst (built ''critical'' False)) key_error (Some nested_ctx)
        ''2026-01-01 00:00:00'' (snd (built ''critical'' False))))
     (error_path (fst (built ''critical'' False))) = []"
proof -
  have "snd (log_error (fst (built ''critical'' False)) key_error (Some nested_ctx)
          ''2026-01-01 00:00:00'' (snd (built ''critical'' False))) = snd (built ''critical'' False)"
    unfolding log_error_snd error_def
    by (rule logger_log_filtered) (simp_all add: built_level level_of_literals level_defs)
  then show ?thesis by (simp add: file_content_def built_files)
qed

section \<open>C3: the location fields of the report\<close>

text \<open>
  C3, as it holds. The location fields of the report are determined by the exception
  being handled at the call. Without one (or when its traceback is \<^verbatim>\<open>None\<close>)
  \<^verbatim>\<open>log_error\<close> returns normally with file and function \<^verbatim>\<open>"<unknown>"\<close> and line
  \<open>-1\<close>. With one, the three fields are those of the first traceback entry, the frame
  in which the exception is being handled: the basename of its file, the line at which
  the exception passed through it, and its function name. They are the place of the
  \<^verbatim>\<open>raise\<close> when the traceback has that single entry, that is, when the exception was
  raised in the handling frame itself.
\<close>

theorem log_error_location:
  "(amb = None \<or> (\<exists>c. amb = Some c \<and> ctx_tb c = []) \<longrightarrow>
      filename (fst (log_error self err amb now s)) = ''<unknown>''
    \<and> lineno (fst (log_error self err amb now s)) = - 1
    \<and> function_name (fst (log_error self err amb now s)) = ''<unknown>'')
   \<and> (\<forall>c fr rest. amb = Some c \<and> ctx_tb c = fr # rest \<longrightarrow>
      filename (fst (log_error self err amb now s)) = basename (co_filename fr)
    \<and> lineno (fst (log_error self err amb now s)) = tb_lineno fr
    \<and> function_name (fst (log_error self err amb now s)) = co_name fr)
   \<and> (\<forall>c fr. amb = Some c \<and> ctx_tb c = [fr] \<longrightarrow>
      filename (fst (log_error self err amb now s)) = basename (co_filename (raise_site c))
    \<and> lineno (fst (log_error self err amb now s)) = tb_lineno (raise_site c)
    \<and> function_name (fst (log_error self err amb now s)) = co_name (raise_site c))"
  by (auto simp: log_error_fst raise_site_def)

theorem log_error_location_witness:
  "filename (fst (log_error (fst (built ''debug'' False)) key_error (Some nested_ctx) ''t''
      (snd (built ''debug'' False)))) = ''main.py''
   \<and> lineno (fst (log_error (fst (built ''debug'' False)) key_error (Some nested_ctx) ''t''
      (snd (built ''debug'' False)))) = 10
   \<and> function_name (fst (log_error (fst (built ''debug'' False)) key_error (Some nested_ctx) ''t''
      (snd (built ''debug'' False)))) = ''handle_request''
   \<and> lineno (fst (log_error (fst (built ''debug'' False)) key_error None ''t''
      (snd (built ''debug'' False)))) = - 1
   \<and> function_name (fst (log_error (fst (built ''debug'' False)) key_error None ''t''
      (snd (built ''debug'' False)))) = ''<unknown>''
   \<and> ctx_tb direct_ctx = [raise_site direct_ctx]
   \<and> lineno (fst (log_error (fst (built ''debug'' False)) key_error (Some direct_ctx) ''t''
      (snd (built ''debug'' False)))) = tb_lineno (raise_site direct_ctx)
   \<and> lineno (fst (log_error (fst (built ''debug'' False)) key_error (Some direct_ctx) ''t''
      (snd (built ''debug'' False)))) = 12"
  using log_error_location [of "Some nested_ctx" "fst (built ''debug'' False)" key_error "''t''"
      "snd (built ''debug'' False)"]
    log_error_location [of None "fst (built ''debug'' False)" key_error "''t''"
      "snd (built ''debug'' False)"]
    log_error_location [of "Some direct_ctx" "fst (built ''debug'' False)" key_error "''t''"
      "snd (built ''debug'' False)"]
  by (simp add: nested_ctx_def direct_ctx_def raise_site_def basename_def)

text \<open>
  C3 as stated has the fields name the place where the exception was raised. For the
  \<^verbatim>\<open>KeyError\<close> raised in \<^verbatim>\<open>lookup\<close> and handled in \<^verbatim>\<open>handle_request\<close>, none of
  the three fields is that of the raising frame.
\<close>

theorem log_error_location_counterexample:
  "function_name (fst (log_error (fst (built ''debug'' False)) key_error (Some nested_ctx) ''t''
      (snd (built ''debug'' False)))) \<noteq> co_name (raise_site nested_ctx)
   \<and> lineno (fst (log_error (fst (built ''debug'' False)) key_error (Some nested_ctx) ''t''
      (snd (built ''debug'' False)))) \<noteq> tb_lineno (raise_site nested_ctx)
   \<and> filename (fst (log_error (fst (built ''debug'' False)) key_error (Some nested_ctx) ''t''
      (snd (built ''debug'' False)))) \<noteq> basename (co_filename (raise_site nested_ctx))"
  by (simp add: log_error_fst nested_ctx_def raise_site_def basename_def)

section \<open>C6: \<open>exception\<close> forces the exception information\<close>

text \<open>
  C6. Every call of \<^verbatim>\<open>exception\<close> is the fault sink's \<open>ERROR\<close>-level call with
  \<^verbatim>\<open>exc_info\<close> true, whatever flag the caller passed: passing false gives the same
  world as passing true. The record the fault sink writes for it (wired sinks, minimum
  level at most \<open>ERROR\<close>) is at level \<open>ERROR\<close>, goes to the fault file only, and has
  the exception information attached.
\<close>

theorem exception_forces_trace:
  "exception self m flag amb s = error self m True amb s
   \<and> exception self m False amb s = exception self m True amb s
   \<and> (self = router_of cfg \<and> wired self s \<and> lg_level (loggers s (error_logger self)) \<le> ERROR
        \<longrightarrow> appends_only s (exception self m flag amb s) (error_path self)
              \<lparr>rec_levelno = ERROR, rec_msg = m, rec_exc_info = Some amb\<rparr>
          \<and> untouched s (exception self m flag amb s) (stdout_path self)
          \<and> untouched s (exception self m flag amb s) (stdin_path self))"
proof -
  have "appends_only s (exception self m flag amb s) (error_path self)
          \<lparr>rec_levelno = ERROR, rec_msg = m, rec_exc_info = Some amb\<rparr>
        \<and> untouched s (exception self m flag amb s) (stdout_path self)
        \<and> untouched s (exception self m flag amb s) (stdin_path self)"
    if self: "self = router_of cfg" and w: "wired self s"
      and l: "lg_level (loggers s (error_logger self)) \<le> ERROR"
    unfolding exception_def
    using error_sink_entry [OF self w l, of m True amb]
    by (simp add: makeRecord_def)
  moreover have "exception self m flag amb s = error self m True amb s"
    and "exception self m False amb s = exception self m True amb s"
    by (simp_all add: exception_def error_def)
  ultimately show ?thesis by blast
qed

text \<open>The flag passed as false, inside a handler, at level \<^verbatim>\<open>"debug"\<close>.\<close>

theorem exception_forces_trace_witness:
  "fst (built ''debug'' False) = router_of (cfg_app ''debug'' False)
   \<and> wired (fst (built ''debug'' False)) (snd (built ''debug'' False))
   \<and> lg_level (loggers (snd (built ''debug'' False)) (error_logger (fst (built ''debug'' False)))) \<le> ERROR
   \<and> file_content
       (exception (fst (built ''debug'' False)) (Text ''Handled error during dictionary lookup.'')
          False (Some nested_ctx) (snd (built ''debug'' False)))
       (error_path (fst (built ''debug'' False)))
     = [\<lparr>rec_levelno = 40, rec_msg = Text ''Handled error during dictionary lookup.'',
         rec_exc_info = Some (Some nested_ctx)\<rparr>]"
  using exception_forces_trace [of "fst (built ''debug'' False)"
      "Text ''Handled error during dictionary lookup.''" False "Some nested_ctx"
      "snd (built ''debug'' False)" "cfg_app ''debug'' False", THEN conjunct2, THEN conjunct2]
  by (simp add: built_router [symmetric] built_wired built_level level_of_literals level_defs
      appends_only_def file_content_def built_files)

section \<open>Facts about \<open>close\<close>\<close>

lemma fold_remove1_self: "fold remove1 xs (xs @ ys) = ys"
  by (induction xs) simp_all

lemma close_handler_eq:
  "close_handler lg h s = (None, removeHandler lg h (snd (handler_close h s)))"
  by (simp add: close_handler_def seq_def try_except_pass_def handler_flush_def
      split: option.splits)

lemma close_loop_eq:
  "fold (\<lambda>h r. seq r (close_handler lg h)) hs (None, s) =
     (None, fold (\<lambda>h s. removeHandler lg h (snd (handler_close h s))) hs s)"
  by (induction hs arbitrary: s) (simp_all add: seq_def close_handler_eq)

lemma handler_close_frame:
  "loggers (snd (handler_close h s)) = loggers s"
  "root_logger (snd (handler_close h s)) = root_logger s"
  "files (snd (handler_close h s)) = files s"
  "sys_stdout (snd (handler_close h s)) = sys_stdout s"
  "sys_stderr (snd (handler_close h s)) = sys_stderr s"
  "io_fault (snd (handler_close h s)) = io_fault s"
  "next_id (snd (handler_close h s)) = next_id s"
  "handler_sig (snd (handler_close h s)) = handler_sig s"
  by (auto simp: handler_close_def handler_sig_def fun_eq_iff split: option.splits target.splits)

lemma handler_close_allocated:
  "handler_heap (snd (handler_close h s)) k = None \<longleftrightarrow> handler_heap s k = None"
  by (auto simp: handler_close_def split: option.splits target.splits)

lemma handler_close_releases:
  "handler_heap s h \<noteq> None \<Longrightarrow> released (snd (handler_close h s)) h"
  by (auto simp: handler_close_def released_def is_console_def split: option.splits target.splits)

lemma handler_close_keeps_released:
  "released s k \<Longrightarrow> released (snd (handler_close h s)) k"
  by (auto simp: handler_close_def released_def is_console_def split: option.splits target.splits)

lemma removeHandler_heap: "handler_heap (removeHandler lg h s) = handler_heap s"
  by (simp add: removeHandler_def)

lemma released_removeHandler: "released (removeHandler lg h s) k = released s k"
  by (simp add: released_def removeHandler_heap)

lemma close_step_loggers:
  "loggers (close_step lg h s) =
     (loggers s)(lg := (loggers s lg)\<lparr>lg_handlers := remove1 h (lg_handlers (loggers s lg))\<rparr>)"
  by (simp add: close_step_def removeHandler_def handler_close_frame)

lemma close_step_frame:
  "files (close_step lg h s) = files s"
  "sys_stdout (close_step lg h s) = sys_stdout s"
  "sys_stderr (close_step lg h s) = sys_stderr s"
  "io_fault (close_step lg h s) = io_fault s"
  "(handler_heap (close_step lg h s) k = None) = (handler_heap s k = None)"
  by (simp_all add: close_step_def removeHandler_def handler_close_frame handler_close_allocated)

lemma close_step_released:
  "released s k \<Longrightarrow> released (close_step lg h s) k"
  "handler_heap s h \<noteq> None \<Longrightarrow> released (close_step lg h s) h"
  by (simp_all add: close_step_def released_removeHandler handler_close_releases
      handler_close_keeps_released)

lemma fold_close_step_loggers:
  "loggers (fold (close_step lg) hs s) =
     (loggers s)(lg := (loggers s lg)\<lparr>lg_handlers := fold remove1 hs (lg_handlers (loggers s lg))\<rparr>)"
  by (induction hs arbitrary: s) (simp_all add: close_step_loggers)

lemma fold_close_step_frame:
  "files (fold (close_step lg) hs s) = files s"
  "sys_stdout (fold (close_step lg) hs s) = sys_stdout s"
  "sys_stderr (fold (close_step lg) hs s) = sys_stderr s"
  "io_fault (fold (close_step lg) hs s) = io_fault s"
  "(handler_heap (fold (close_step lg) hs s) k = None) = (handler_heap s k = None)"
  by (induction hs arbitrary: s; simp add: close_step_frame)+

lemma fold_close_step_keeps_released:
  "released s k \<Longrightarrow> released (fold (close_step lg) hs s) k"
  by (induction hs arbitrary: s) (simp_all add: close_step_released)

lemma fold_close_step_releases:
  "h \<in> set hs \<Longrightarrow> handler_heap s h \<noteq> None \<Longrightarrow> released (fold (close_step lg) hs s) h"
proof (induction hs arbitrary: s)
  case Nil
  then show ?case by simp
next
  case (Cons a hs)
  show ?case
  proof (cases "h = a")
    case True
    then have "released (close_step lg a s) h"
      using Cons.prems by (simp add: close_step_released)
    then show ?thesis by (simp add: fold_close_step_keeps_released)
  next
    case False
    then have "h \<in> set hs" using Cons.prems by simp
    moreover have "handler_heap (close_step lg a s) h \<noteq> None"
      using Cons.prems by (simp add: close_step_frame)
    ultimately show ?thesis using Cons.IH by simp
  qed
qed

lemma close_logger_eq:
  "close_logger lg s = (None, fold (close_step lg) (lg_handlers (loggers s lg)) s)"
  unfolding close_logger_def close_step_def by (rule close_loop_eq)

lemma close_logger_loggers:
  "loggers (snd (close_logger lg s)) = (loggers s)(lg := (loggers s lg)\<lparr>lg_handlers := []\<rparr>)"
  using fold_remove1_self [of "lg_handlers (loggers s lg)" "[]"]
  by (simp add: close_logger_eq fold_close_step_loggers)

lemma close_logger_facts:
  "fst (close_logger lg s) = None"
  "files (snd (close_logger lg s)) = files s"
  "sys_stdout (snd (close_logger lg s)) = sys_stdout s"
  "sys_stderr (snd (close_logger lg s)) = sys_stderr s"
  "io_fault (snd (close_logger lg s)) = io_fault s"
  "(handler_heap (snd (close_logger lg s)) k = None) = (handler_heap s k = None)"
  "released s k \<Longrightarrow> released (snd (close_logger lg s)) k"
  "k \<in> set (lg_handlers (loggers s lg)) \<Longrightarrow> handler_heap s k \<noteq> None
     \<Longrightarrow> released (snd (close_logger lg s)) k"
  by (simp_all add: close_logger_eq fold_close_step_frame fold_close_step_keeps_released
      fold_close_step_releases)

lemma close_logger_idle:
  "lg_handlers (loggers s lg) = [] \<Longrightarrow> close_logger lg s = (None, s)"
  by (simp add: close_logger_def)

lemma pending_close_logger: "pending s n h \<Longrightarrow> pending (snd (close_logger lg s)) n h"
  unfolding pending_def
  using close_logger_facts(6-8)
  by (cases "n = lg") (auto simp: close_logger_loggers)

lemma pending_closed: "pending s n h \<Longrightarrow> released (snd (close_logger n s)) h"
  unfolding pending_def using close_logger_facts(7,8) by auto

lemma close_eq: "close self s = (None, close_world self s)"
  by (simp add: close_def close_world_def seq_def close_logger_facts(1) split: option.splits)
    (metis close_logger_facts(1) prod.collapse)

lemma close_world_handlers:
  "lg_handlers (loggers (close_world self s) (stdin_logger self)) = []"
  "lg_handlers (loggers (close_world self s) (stdout_logger self)) = []"
  "lg_handlers (loggers (close_world self s) (error_logger self)) = []"
  by (simp_all add: close_world_def close_logger_loggers)

lemma close_world_releases:
  assumes "n = stdin_logger self \<or> n = stdout_logger self \<or> n = error_logger self"
    and "h \<in> set (lg_handlers (loggers s n))" "handler_heap s h \<noteq> None"
  shows "released (close_world self s) h"
proof -
  have p: "pending s n h" using assms(2,3) by (simp add: pending_def)
  let ?s1 = "snd (close_logger (stdin_logger self) s)"
  let ?s2 = "snd (close_logger (stdout_logger self) ?s1)"
  from assms(1) consider "n = stdin_logger self" | "n = stdout_logger self" | "n = error_logger self"
    by blast
  then show ?thesis
  proof cases
    case 1
    then have "released ?s1 h" using p pending_closed by simp
    then show ?thesis by (simp add: close_world_def close_logger_facts(7))
  next
    case 2
    have "pending ?s1 n h" using p by (rule pending_close_logger)
    then have "released ?s2 h" using 2 pending_closed by simp
    then show ?thesis by (simp add: close_world_def close_logger_facts(7))
  next
    case 3
    have "pending ?s2 n h" using p by (intro pending_close_logger)
    then show ?thesis using 3 pending_closed by (simp add: close_world_def)
  qed
qed

lemma close_world_idem: "close_world self (close_world self s) = close_world self s"
proof -
  let ?t = "close_world self s"
  have 1: "close_logger (stdin_logger self) ?t = (None, ?t)"
    by (rule close_logger_idle) (rule close_world_handlers)
  have 2: "close_logger (stdout_logger self) ?t = (None, ?t)"
    by (rule close_logger_idle) (rule close_world_handlers)
  have 3: "close_logger (error_logger self) ?t = (None, ?t)"
    by (rule close_logger_idle) (rule close_world_handlers)
  show ?thesis
    unfolding close_world_def [of self "close_world self s"] by (simp add: 1 2 3)
qed

lemma close_world_frame:
  "files (close_world self s) = files s"
  "sys_stdout (close_world self s) = sys_stdout s"
  "sys_stderr (close_world self s) = sys_stderr s"
  "io_fault (close_world self s) = io_fault s"
  by (simp_all add: close_world_def close_logger_facts)

lemma Logger_init_heap_console:
  "cfg_enable_console cfg \<Longrightarrow>
   handler_heap (snd (Logger_init cfg s)) =
     (handler_heap s)
       (next_id s \<mapsto> \<lparr>h_target = LogFile (stdin_path (router_of cfg)), h_level = NOTSET,
                      h_open = False, h_closed = False\<rparr>,
        next_id s + 1 \<mapsto> \<lparr>h_target = LogFile (stdout_path (router_of cfg)), h_level = NOTSET,
                      h_open = False, h_closed = False\<rparr>,
        next_id s + 2 \<mapsto> \<lparr>h_target = SysStdout, h_level = level_of (cfg_level cfg),
                      h_open = True, h_closed = False\<rparr>,
        next_id s + 3 \<mapsto> \<lparr>h_target = LogFile (error_path (router_of cfg)), h_level = NOTSET,
                      h_open = False, h_closed = False\<rparr>,
        next_id s + 4 \<mapsto> \<lparr>h_target = SysStderr, h_level = level_of (cfg_level cfg),
                      h_open = True, h_closed = False\<rparr>)"
  by (simp add: Logger_init_snd build_logger_heap build_logger_next eval_nat_numeral)

lemma built_console_handlers:
  "lg_handlers (loggers (snd (built level True)) (stdin_logger (fst (built level True)))) = [0]"
  "lg_handlers (loggers (snd (built level True)) (stdout_logger (fst (built level True)))) = [1, 2]"
  "lg_handlers (loggers (snd (built level True)) (error_logger (fst (built level True)))) = [3, 4]"
  unfolding built_router unfolding built_def
  by (simp_all add: Logger_init_loggers router_of_def cfg_app_def world0_def)

lemma built_console_heap:
  "handler_heap (snd (built level True)) 2 =
     Some \<lparr>h_target = SysStdout, h_level = level_of level, h_open = True, h_closed = False\<rparr>"
  unfolding built_def
  by (simp add: Logger_init_heap_console cfg_app_def world0_def)

lemma with_scope_eq:
  "with_scope self body s = (fst (body self s), close_world self (snd (body self s)))"
  by (simp add: with_scope_def Logger_enter_def Logger_exit_def close_eq split: prod.splits)

section \<open>C4: \<open>close\<close> releases every handler and raises nothing\<close>

text \<open>
  C4. In every world, also one whose streams fail on flush and close, \<^verbatim>\<open>close\<close>
  returns without raising; afterwards each of the three sinks has no handler attached,
  and every handler object that was attached to one of them is released (marked closed,
  a file handler without its stream), the ones after a failing one included. Closing
  again returns normally and leaves the world as it is.
\<close>

theorem close_releases_everything:
  "fst (close self s) = None
   \<and> lg_handlers (loggers (snd (close self s)) (stdin_logger self)) = []
   \<and> lg_handlers (loggers (snd (close self s)) (stdout_logger self)) = []
   \<and> lg_handlers (loggers (snd (close self s)) (error_logger self)) = []
   \<and> (\<forall>n \<in> {stdin_logger self, stdout_logger self, error_logger self}.
        \<forall>h \<in> set (lg_handlers (loggers s n)).
          handler_heap s h \<noteq> None \<longrightarrow> released (snd (close self s)) h)
   \<and> close self (snd (close self s)) = (None, snd (close self s))"
  using close_world_releases [where self = self and s = s]
  by (simp add: close_eq close_world_handlers close_world_idem)

text \<open>With console mirroring on and every stream failing, flushing the console handler
  of the output sink raises; \<open>close\<close> still returns normally, detaches it and
  releases it.\<close>

theorem close_releases_everything_witness:
  "fst (handler_flush 2 (all_broken (snd (built ''debug'' True)))) = Some OSError
   \<and> stdout_logger (fst (built ''debug'' True)) \<in>
       {stdin_logger (fst (built ''debug'' True)), stdout_logger (fst (built ''debug'' True)),
        error_logger (fst (built ''debug'' True))}
   \<and> 2 \<in> set (lg_handlers (loggers (all_broken (snd (built ''debug'' True)))
                 (stdout_logger (fst (built ''debug'' True)))))
   \<and> handler_heap (all_broken (snd (built ''debug'' True))) 2 \<noteq> None
   \<and> fst (close (fst (built ''debug'' True)) (all_broken (snd (built ''debug'' True)))) = None
   \<and> lg_handlers (loggers (snd (close (fst (built ''debug'' True))
         (all_broken (snd (built ''debug'' True))))) (stdout_logger (fst (built ''debug'' True)))) = []
   \<and> released (snd (close (fst (built ''debug'' True)) (all_broken (snd (built ''debug'' True))))) 2"
  using close_releases_everything [of "fst (built ''debug'' True)"
      "all_broken (snd (built ''debug'' True))"]
  by (simp add: all_broken_def built_console_handlers built_console_heap handler_flush_def)

lemma built_info_files:
  "files (info (fst (built ''debug'' console)) m ei amb (snd (built ''debug'' console))) =
     (\<lambda>_. None)(stdout_path (fst (built ''debug'' console)) \<mapsto> [makeRecord INFO m ei amb])"
proof -
  have "sink_ok (snd (built ''debug'' console)) (stdout_logger (fst (built ''debug'' console)))
          (stdout_path (fst (built ''debug'' console)))"
    using built_wired [of "''debug''" console] by (simp add: wired_def)
  then show ?thesis
    unfolding info_def
    by (subst logger_log_files)
      (simp_all add: built_level level_of_literals level_defs built_files file_content_def)
qed

section \<open>C7: scoped use\<close>

text \<open>
  C7. \<^verbatim>\<open>__enter__\<close> returns the Logger object itself. \<^verbatim>\<open>__exit__\<close> is \<open>close\<close>
  whatever its three arguments are, so for every block, ended normally or by a failure,
  the \<^verbatim>\<open>with\<close> statement ends in the world \<open>close\<close> leaves after the block: the three
  sinks have no handlers, the files are as the block left them, and the block's own
  outcome (its value or its failure) is the outcome of the statement.
\<close>

theorem scoped_use_always_closes:
  "Logger_enter self = self
   \<and> Logger_exit self exc s = close self s
   \<and> fst (with_scope self body s) = fst (body self s)
   \<and> snd (with_scope self body s) = snd (close self (snd (body self s)))
   \<and> lg_handlers (loggers (snd (with_scope self body s)) (stdin_logger self)) = []
   \<and> lg_handlers (loggers (snd (with_scope self body s)) (stdout_logger self)) = []
   \<and> lg_handlers (loggers (snd (with_scope self body s)) (error_logger self)) = []
   \<and> files (snd (with_scope self body s)) = files (snd (body self s))"
  by (simp add: with_scope_eq Logger_enter_def Logger_exit_def close_eq close_world_handlers
      close_world_frame)

text \<open>A block that logs a line and raises: the failure comes out of the statement, the
  output sink is left without handlers, and the line is in the output file.\<close>

theorem scoped_use_always_closes_witness:
  "fst (with_scope (fst (built ''debug'' False)) failing_block (snd (built ''debug'' False)))
     = Inl (OtherException ''boom'')
   \<and> lg_handlers (loggers
        (snd (with_scope (fst (built ''debug'' False)) failing_block (snd (built ''debug'' False))))
        (stdout_logger (fst (built ''debug'' False)))) = []
   \<and> file_content
        (snd (with_scope (fst (built ''debug'' False)) failing_block (snd (built ''debug'' False))))
        (stdout_path (fst (built ''debug'' False)))
     = [\<lparr>rec_levelno = 20, rec_msg = Text ''Testing cleanup.'', rec_exc_info = None\<rparr>]"
proof -
  note t = scoped_use_always_closes [of "fst (built ''debug'' False)" None
      "snd (built ''debug'' False)" failing_block]
  note outcome = t [THEN conjunct2, THEN conjunct2, THEN conjunct1]
  note detached = t [THEN conjunct2, THEN conjunct2, THEN conjunct2, THEN conjunct2,
      THEN conjunct2, THEN conjunct1]
  note kept = t [THEN conjunct2, THEN conjunct2, THEN conjunct2, THEN conjunct2,
      THEN conjunct2, THEN conjunct2, THEN conjunct2]
  show ?thesis
    using outcome detached kept
    by (simp add: failing_block_def file_content_def built_info_files makeRecord_def level_defs)
qed

section \<open>Facts about construction\<close>

lemma router_names:
  "stdin_logger (router_of cfg) = cfg_log_name cfg @ ''.stdin''"
  "stdout_logger (router_of cfg) = cfg_log_name cfg @ ''.stdout''"
  "error_logger (router_of cfg) = cfg_log_name cfg @ ''.error''"
  by (simp_all add: router_of_def)

lemma Logger_init_handlers:
  "lg_handlers (loggers (snd (Logger_init cfg s)) (stdin_logger (router_of cfg))) = [next_id s]"
  "lg_handlers (loggers (snd (Logger_init cfg s)) (stdout_logger (router_of cfg))) =
     (if cfg_enable_console cfg then [next_id s + 1, next_id s + 2] else [next_id s + 1])"
  "lg_handlers (loggers (snd (Logger_init cfg s)) (error_logger (router_of cfg))) =
     (if cfg_enable_console cfg then [next_id s + 3, next_id s + 4] else [next_id s + 2])"
  by (simp_all add: Logger_init_loggers router_names)

lemma Logger_init_next:
  "next_id (snd (Logger_init cfg s)) = (if cfg_enable_console cfg then next_id s + 5 else next_id s + 3)"
  by (simp add: Logger_init_snd build_logger_next)

lemma Logger_init_attached:
  "attached (snd (Logger_init cfg s)) (stdin_logger (router_of cfg)) =
     [Some (LogFile (stdin_path (router_of cfg)), NOTSET)]"
  "attached (snd (Logger_init cfg s)) (stdout_logger (router_of cfg)) =
     (if cfg_enable_console cfg
      then [Some (LogFile (stdout_path (router_of cfg)), NOTSET),
            Some (SysStdout, level_of (cfg_level cfg))]
      else [Some (LogFile (stdout_path (router_of cfg)), NOTSET)])"
  "attached (snd (Logger_init cfg s)) (error_logger (router_of cfg)) =
     (if cfg_enable_console cfg
      then [Some (LogFile (error_path (router_of cfg)), NOTSET),
            Some (SysStderr, level_of (cfg_level cfg))]
      else [Some (LogFile (error_path (router_of cfg)), NOTSET)])"
  by (simp_all add: attached_def Logger_init_handlers Logger_init_sig)

lemma demo_paths:
  "stdin_path (router_of (cfg_app level console)) = ''/logs/test_app_stdin.log''"
  "stdout_path (router_of (cfg_app level console)) = ''/logs/test_app_stdout.log''"
  "error_path (router_of (cfg_app level console)) = ''/logs/test_app_error.log''"
  by (simp_all add: router_of_def cfg_app_def path_join_def)

lemma cfg_app_fields:
  "cfg_enable_console (cfg_app level console) = console"
  "cfg_level (cfg_app level console) = level"
  "cfg_log_name (cfg_app level console) = ''test_app''"
  "cfg_log_dir (cfg_app level console) = ''/logs''"
  by (simp_all add: cfg_app_def)

lemma fresh_sink_Logger_init:
  "fresh_sink s (snd (Logger_init cfg s)) (stdin_logger (router_of cfg)) (stdin_path (router_of cfg))"
  "fresh_sink s (snd (Logger_init cfg s)) (stdout_logger (router_of cfg)) (stdout_path (router_of cfg))"
  "fresh_sink s (snd (Logger_init cfg s)) (error_logger (router_of cfg)) (error_path (router_of cfg))"
  by (simp_all add: fresh_sink_def Logger_init_handlers Logger_init_sig is_console_def)

section \<open>C5: console mirroring\<close>

text \<open>
  C5. After a construction with console mirroring enabled, the output sink carries its
  file handler and exactly one more handler, a stream handler on the standard output
  stream; the fault sink its file handler and exactly one more, a stream handler on the
  standard error stream; the ingress sink its file handler only. After a construction
  with mirroring disabled each of the three sinks carries exactly its file handler.
\<close>

theorem console_mirroring_handlers:
  "(cfg_enable_console cfg \<longrightarrow>
      attached (snd (Logger_init cfg s)) (stdout_logger (fst (Logger_init cfg s))) =
        [Some (LogFile (stdout_path (fst (Logger_init cfg s))), NOTSET),
         Some (SysStdout, level_of (cfg_level cfg))]
    \<and> attached (snd (Logger_init cfg s)) (error_logger (fst (Logger_init cfg s))) =
        [Some (LogFile (error_path (fst (Logger_init cfg s))), NOTSET),
         Some (SysStderr, level_of (cfg_level cfg))]
    \<and> attached (snd (Logger_init cfg s)) (stdin_logger (fst (Logger_init cfg s))) =
        [Some (LogFile (stdin_path (fst (Logger_init cfg s))), NOTSET)])
   \<and> (\<not> cfg_enable_console cfg \<longrightarrow>
      attached (snd (Logger_init cfg s)) (stdout_logger (fst (Logger_init cfg s))) =
        [Some (LogFile (stdout_path (fst (Logger_init cfg s))), NOTSET)]
    \<and> attached (snd (Logger_init cfg s)) (error_logger (fst (Logger_init cfg s))) =
        [Some (LogFile (error_path (fst (Logger_init cfg s))), NOTSET)]
    \<and> attached (snd (Logger_init cfg s)) (stdin_logger (fst (Logger_init cfg s))) =
        [Some (LogFile (stdin_path (fst (Logger_init cfg s))), NOTSET)])"
  by (simp add: Logger_init_router Logger_init_attached)

theorem console_mirroring_handlers_witness:
  "cfg_enable_console (cfg_app ''debug'' True)
   \<and> attached (snd (built ''debug'' True)) (stdout_logger (fst (built ''debug'' True))) =
        [Some (LogFile ''/logs/test_app_stdout.log'', 0), Some (SysStdout, 10)]
   \<and> attached (snd (built ''debug'' True)) (error_logger (fst (built ''debug'' True))) =
        [Some (LogFile ''/logs/test_app_error.log'', 0), Some (SysStderr, 10)]
   \<and> attached (snd (built ''debug'' True)) (stdin_logger (fst (built ''debug'' True))) =
        [Some (LogFile ''/logs/test_app_stdin.log'', 0)]
   \<and> \<not> cfg_enable_console (cfg_app ''debug'' False)
   \<and> attached (snd (built ''debug'' False)) (stdout_logger (fst (built ''debug'' False))) =
        [Some (LogFile ''/logs/test_app_stdout.log'', 0)]"
  using console_mirroring_handlers [of "cfg_app ''debug'' True" world0]
    console_mirroring_handlers [of "cfg_app ''debug'' False" world0]
  by (simp add: built_def Logger_init_router demo_paths level_of_literals level_defs cfg_app_fields)

lemma built_next: "next_id (snd (built level True)) = 5"
  by (simp add: built_def Logger_init_next cfg_app_fields world0_def)

section \<open>C8: construction replaces the handlers of a sink\<close>

text \<open>
  C8. Whatever the world before (in particular after earlier constructions with the same
  name), right after a construction each of its three sinks carries exactly the handlers
  this construction made: one new file handler on the sink's file and at most one new
  console handler. No handler object that existed before is attached any more, and
  constructing again with the same arguments leaves each sink with as many handlers as
  the first construction did.
\<close>

theorem construction_replaces_handlers:
  "fresh_sink s (snd (Logger_init cfg s)) (stdin_logger (fst (Logger_init cfg s)))
      (stdin_path (fst (Logger_init cfg s)))
   \<and> fresh_sink s (snd (Logger_init cfg s)) (stdout_logger (fst (Logger_init cfg s)))
      (stdout_path (fst (Logger_init cfg s)))
   \<and> fresh_sink s (snd (Logger_init cfg s)) (error_logger (fst (Logger_init cfg s)))
      (error_path (fst (Logger_init cfg s)))
   \<and> (\<forall>n \<in> {stdin_logger (fst (Logger_init cfg s)), stdout_logger (fst (Logger_init cfg s)),
              error_logger (fst (Logger_init cfg s))}.
        \<forall>h \<in> set (lg_handlers (loggers s n)).
          h < next_id s \<longrightarrow> h \<notin> set (lg_handlers (loggers (snd (Logger_init cfg s)) n)))
   \<and> (\<forall>n \<in> {stdin_logger (fst (Logger_init cfg s)), stdout_logger (fst (Logger_init cfg s)),
              error_logger (fst (Logger_init cfg s))}.
        length (lg_handlers (loggers (snd (Logger_init cfg (snd (Logger_init cfg s)))) n)) =
        length (lg_handlers (loggers (snd (Logger_init cfg s)) n)))"
  by (auto simp: Logger_init_router fresh_sink_Logger_init Logger_init_handlers)

text \<open>A second construction with the same arguments, mirroring on: the output sink had
  handlers 1 and 2 and now has the new objects 6 and 7.\<close>

theorem construction_replaces_handlers_witness:
  "stdout_logger (fst (Logger_init (cfg_app ''debug'' True) (snd (built ''debug'' True))))
     \<in> {stdin_logger (fst (Logger_init (cfg_app ''debug'' True) (snd (built ''debug'' True)))),
         stdout_logger (fst (Logger_init (cfg_app ''debug'' True) (snd (built ''debug'' True)))),
         error_logger (fst (Logger_init (cfg_app ''debug'' True) (snd (built ''debug'' True))))}
   \<and> 1 \<in> set (lg_handlers (loggers (snd (built ''debug'' True))
         (stdout_logger (fst (Logger_init (cfg_app ''debug'' True) (snd (built ''debug'' True)))))))
   \<and> 1 < next_id (snd (built ''debug'' True))
   \<and> 1 \<notin> set (lg_handlers (loggers (snd (Logger_init (cfg_app ''debug'' True) (snd (built ''debug'' True))))
         (stdout_logger (fst (Logger_init (cfg_app ''debug'' True) (snd (built ''debug'' True)))))))
   \<and> lg_handlers (loggers (snd (Logger_init (cfg_app ''debug'' True) (snd (built ''debug'' True))))
         (stdout_logger (fst (Logger_init (cfg_app ''debug'' True) (snd (built ''debug'' True)))))) = [6, 7]
   \<and> fresh_sink (snd (built ''debug'' True))
         (snd (Logger_init (cfg_app ''debug'' True) (snd (built ''debug'' True))))
         (stdout_logger (fst (Logger_init (cfg_app ''debug'' True) (snd (built ''debug'' True)))))
         (stdout_path (fst (Logger_init (cfg_app ''debug'' True) (snd (built ''debug'' True)))))"
  using construction_replaces_handlers [of "snd (built ''debug'' True)" "cfg_app ''debug'' True"]
    built_console_handlers(2) [of "''debug''"]
  by (simp add: Logger_init_router built_router Logger_init_handlers built_next cfg_app_fields)

section \<open>Facts about two Logger objects\<close>

lemma build_logger_heap_old:
  "h < next_id s \<Longrightarrow> handler_heap (snd (build_logger n p lv ec ce s)) h = handler_heap s h"
  by (simp add: build_logger_heap)

lemma Logger_init_heap_old:
  "h < next_id s \<Longrightarrow> handler_heap (snd (Logger_init cfg s)) h = handler_heap s h"
  unfolding Logger_init_snd
  by (simp add: build_logger_heap_old build_logger_next)

lemma Logger_init_other_loggers:
  assumes "cfg_log_name cfg2 \<noteq> cfg_log_name cfg1"
  shows "loggers (snd (Logger_init cfg2 s)) (stdin_logger (router_of cfg1)) = loggers s (stdin_logger (router_of cfg1))"
    and "loggers (snd (Logger_init cfg2 s)) (stdout_logger (router_of cfg1)) = loggers s (stdout_logger (router_of cfg1))"
    and "loggers (snd (Logger_init cfg2 s)) (error_logger (router_of cfg1)) = loggers s (error_logger (router_of cfg1))"
  using assms by (simp_all add: Logger_init_loggers router_names)

lemma do_call_same_names:
  assumes "stdin_logger a = stdin_logger b" "stdout_logger a = stdout_logger b"
    "error_logger a = error_logger b"
  shows "do_call a c amb w = do_call b c amb w"
  using assms
  by (cases c)
    (simp_all add: debug_def info_def warning_def error_def critical_def exception_def stdin_def
      log_error_snd log_error_fst close_def)

lemma same_name_loggers:
  assumes "cfg_log_name cfg2 = cfg_log_name cfg1"
  shows "stdin_logger (router_of cfg2) = stdin_logger (router_of cfg1)"
    "stdout_logger (router_of cfg2) = stdout_logger (router_of cfg1)"
    "error_logger (router_of cfg2) = error_logger (router_of cfg1)"
  using assms by (simp_all add: router_names)

lemma sink_entry:
  assumes "wired self s"
  shows "lg_level (loggers s (stdout_logger self)) \<le> lvl \<Longrightarrow>
           appends_only s (logger_log (stdout_logger self) lvl m ei amb s) (stdout_path self)
             (makeRecord lvl m ei amb)"
    and "lg_level (loggers s (error_logger self)) \<le> lvl \<Longrightarrow>
           appends_only s (logger_log (error_logger self) lvl m ei amb s) (error_path self)
             (makeRecord lvl m ei amb)"
    and "lg_level (loggers s (stdin_logger self)) \<le> lvl \<Longrightarrow>
           appends_only s (logger_log (stdin_logger self) lvl m ei amb s) (stdin_path self)
             (makeRecord lvl m ei amb)"
  using assms by (simp_all add: wired_def logger_log_routes(1))

lemma Logger_init_level:
  "lg_level (loggers (snd (Logger_init cfg s)) (stdin_logger (router_of cfg))) = level_of (cfg_level cfg)"
  "lg_level (loggers (snd (Logger_init cfg s)) (stdout_logger (router_of cfg))) = level_of (cfg_level cfg)"
  "lg_level (loggers (snd (Logger_init cfg s)) (error_logger (router_of cfg))) = level_of (cfg_level cfg)"
  by (simp_all add: Logger_init_loggers router_names)

lemma cfg_other_fields:
  "cfg_log_name cfg_other_dir = ''test_app''" "cfg_level cfg_other_dir = ''debug''"
  "cfg_log_name cfg_other_name = ''cleanup_test''"
  "stdout_path (router_of cfg_other_dir) = ''/other/test_app_stdout.log''"
  by (simp_all add: cfg_other_dir_def cfg_other_name_def router_of_def path_join_def)

lemma built_io: "io_fault (snd (built level console)) = (\<lambda>_. None)"
  by (simp add: built_def Logger_init_frame world0_def)

lemma rebuilt_wired:
  "wired (fst (Logger_init cfg (snd (built level console))))
     (snd (Logger_init cfg (snd (built level console))))"
  unfolding Logger_init_router
  by (rule wired_Logger_init) (simp_all add: built_io)

lemma rebuilt_files: "files (snd (Logger_init cfg (snd (built level console)))) = (\<lambda>_. None)"
  by (simp add: Logger_init_frame built_files)

lemma built_handlers:
  "lg_handlers (loggers (snd (built level False)) (stdout_logger (fst (built level False)))) = [1]"
  unfolding built_router unfolding built_def
  by (simp add: Logger_init_handlers cfg_app_fields world0_def)

lemma above_info:
  "lower level \<in> {''warning'', ''error'', ''critical''} \<Longrightarrow> INFO < level_of level"
  by (auto simp: level_of_def LEVEL_MAP_def level_defs)

lemma close_world_level:
  "lg_level (loggers (close_world self s) n) = lg_level (loggers s n)"
  by (simp add: close_world_def close_logger_loggers)

lemma do_call_level:
  "lg_level (loggers (do_call self c amb s) n) = lg_level (loggers s n)"
  by (cases c)
    (simp_all add: debug_def info_def warning_def error_def critical_def exception_def stdin_def
      log_error_snd logger_log_frame close_eq close_world_level)

lemma run_level: "lg_level (loggers (run self calls s) n) = lg_level (loggers s n)"
  unfolding run_def by (induction calls arbitrary: s) (simp_all add: do_call_level)

section \<open>C9: sinks are registry objects found by name\<close>

text \<open>
  C9. The three loggers of a Logger object are the registry's objects for
  \<^verbatim>\<open><name>.stdin\<close>, \<^verbatim>\<open><name>.stdout\<close> and \<^verbatim>\<open><name>.error\<close>; the directory is
  no part of the key. So when a second Logger is constructed with the base name of a
  first one, whatever its directory: both objects hold the same three loggers; after
  the second construction these carry only the handlers it made, on the second
  object's files; every method call on the first object does what the same call on the
  second does, and so (second object's sinks wired, level admitting the call)
  \<^verbatim>\<open>info\<close>, \<^verbatim>\<open>stdin\<close> and \<^verbatim>\<open>error\<close> on the first object append to the second
  object's files; closing either object leaves the sinks of both without handlers.
  Constructing a Logger with a different base name leaves the first object's three
  loggers, and every handler object that existed, as they were.
\<close>

theorem registry_keyed_by_name:
  "(cfg_log_name cfg2 = cfg_log_name cfg1 \<longrightarrow>
      stdin_logger (fst (Logger_init cfg2 s)) = stdin_logger (fst (Logger_init cfg1 s0))
    \<and> stdout_logger (fst (Logger_init cfg2 s)) = stdout_logger (fst (Logger_init cfg1 s0))
    \<and> error_logger (fst (Logger_init cfg2 s)) = error_logger (fst (Logger_init cfg1 s0))
    \<and> fresh_sink s (snd (Logger_init cfg2 s)) (stdin_logger (fst (Logger_init cfg1 s0)))
         (stdin_path (fst (Logger_init cfg2 s)))
    \<and> fresh_sink s (snd (Logger_init cfg2 s)) (stdout_logger (fst (Logger_init cfg1 s0)))
         (stdout_path (fst (Logger_init cfg2 s)))
    \<and> fresh_sink s (snd (Logger_init cfg2 s)) (error_logger (fst (Logger_init cfg1 s0)))
         (error_path (fst (Logger_init cfg2 s)))
    \<and> (\<forall>c amb w. do_call (fst (Logger_init cfg1 s0)) c amb w = do_call (fst (Logger_init cfg2 s)) c amb w)
    \<and> (wired (fst (Logger_init cfg2 s)) (snd (Logger_init cfg2 s)) \<longrightarrow>
          (level_of (cfg_level cfg2) \<le> INFO \<longrightarrow>
             appends_only (snd (Logger_init cfg2 s))
               (info (fst (Logger_init cfg1 s0)) m ei amb (snd (Logger_init cfg2 s)))
               (stdout_path (fst (Logger_init cfg2 s))) (makeRecord INFO m ei amb)
           \<and> appends_only (snd (Logger_init cfg2 s))
               (stdin (fst (Logger_init cfg1 s0)) m ei amb (snd (Logger_init cfg2 s)))
               (stdin_path (fst (Logger_init cfg2 s))) (makeRecord INFO m ei amb))
        \<and> (level_of (cfg_level cfg2) \<le> ERROR \<longrightarrow>
             appends_only (snd (Logger_init cfg2 s))
               (error (fst (Logger_init cfg1 s0)) m ei amb (snd (Logger_init cfg2 s)))
               (error_path (fst (Logger_init cfg2 s))) (makeRecord ERROR m ei amb)))
    \<and> (\<forall>w. lg_handlers (loggers (snd (close (fst (Logger_init cfg1 s0)) w))
                 (stdin_logger (fst (Logger_init cfg2 s)))) = []
           \<and> lg_handlers (loggers (snd (close (fst (Logger_init cfg1 s0)) w))
                 (stdout_logger (fst (Logger_init cfg2 s)))) = []
           \<and> lg_handlers (loggers (snd (close (fst (Logger_init cfg1 s0)) w))
                 (error_logger (fst (Logger_init cfg2 s)))) = []
           \<and> lg_handlers (loggers (snd (close (fst (Logger_init cfg2 s)) w))
                 (stdin_logger (fst (Logger_init cfg1 s0)))) = []
           \<and> lg_handlers (loggers (snd (close (fst (Logger_init cfg2 s)) w))
                 (stdout_logger (fst (Logger_init cfg1 s0)))) = []
           \<and> lg_handlers (loggers (snd (close (fst (Logger_init cfg2 s)) w))
                 (error_logger (fst (Logger_init cfg1 s0)))) = []))
   \<and> (cfg_log_name cfg2 \<noteq> cfg_log_name cfg1 \<longrightarrow>
      loggers (snd (Logger_init cfg2 s)) (stdin_logger (fst (Logger_init cfg1 s0)))
        = loggers s (stdin_logger (fst (Logger_init cfg1 s0)))
    \<and> loggers (snd (Logger_init cfg2 s)) (stdout_logger (fst (Logger_init cfg1 s0)))
        = loggers s (stdout_logger (fst (Logger_init cfg1 s0)))
    \<and> loggers (snd (Logger_init cfg2 s)) (error_logger (fst (Logger_init cfg1 s0)))
        = loggers s (error_logger (fst (Logger_init cfg1 s0)))
    \<and> (\<forall>h. h < next_id s \<longrightarrow> handler_heap (snd (Logger_init cfg2 s)) h = handler_heap s h))"
proof -
  let ?A = "router_of cfg1" and ?B = "router_of cfg2" and ?s2 = "snd (Logger_init cfg2 s)"
  have other: "cfg_log_name cfg2 \<noteq> cfg_log_name cfg1 \<Longrightarrow>
      loggers ?s2 (stdin_logger ?A) = loggers s (stdin_logger ?A)
    \<and> loggers ?s2 (stdout_logger ?A) = loggers s (stdout_logger ?A)
    \<and> loggers ?s2 (error_logger ?A) = loggers s (error_logger ?A)
    \<and> (\<forall>h. h < next_id s \<longrightarrow> handler_heap ?s2 h = handler_heap s h)"
    by (simp add: Logger_init_other_loggers Logger_init_heap_old)
  have same: "stdin_logger ?B = stdin_logger ?A \<and> stdout_logger ?B = stdout_logger ?A
      \<and> error_logger ?B = error_logger ?A
      \<and> fresh_sink s ?s2 (stdin_logger ?A) (stdin_path ?B)
      \<and> fresh_sink s ?s2 (stdout_logger ?A) (stdout_path ?B)
      \<and> fresh_sink s ?s2 (error_logger ?A) (error_path ?B)
      \<and> (\<forall>c amb w. do_call ?A c amb w = do_call ?B c amb w)
      \<and> (wired ?B ?s2 \<longrightarrow>
          (level_of (cfg_level cfg2) \<le> INFO \<longrightarrow>
             appends_only ?s2 (info ?A m ei amb ?s2) (stdout_path ?B) (makeRecord INFO m ei amb)
           \<and> appends_only ?s2 (stdin ?A m ei amb ?s2) (stdin_path ?B) (makeRecord INFO m ei amb))
        \<and> (level_of (cfg_level cfg2) \<le> ERROR \<longrightarrow>
             appends_only ?s2 (error ?A m ei amb ?s2) (error_path ?B) (makeRecord ERROR m ei amb)))
      \<and> (\<forall>w. lg_handlers (loggers (snd (close ?A w)) (stdin_logger ?B)) = []
           \<and> lg_handlers (loggers (snd (close ?A w)) (stdout_logger ?B)) = []
           \<and> lg_handlers (loggers (snd (close ?A w)) (error_logger ?B)) = []
           \<and> lg_handlers (loggers (snd (close ?B w)) (stdin_logger ?A)) = []
           \<and> lg_handlers (loggers (snd (close ?B w)) (stdout_logger ?A)) = []
           \<and> lg_handlers (loggers (snd (close ?B w)) (error_logger ?A)) = [])"
    if eq: "cfg_log_name cfg2 = cfg_log_name cfg1"
  proof -
    note n = same_name_loggers [OF eq]
    have fresh: "fresh_sink s ?s2 (stdin_logger ?A) (stdin_path ?B)"
      "fresh_sink s ?s2 (stdout_logger ?A) (stdout_path ?B)"
      "fresh_sink s ?s2 (error_logger ?A) (error_path ?B)"
      using fresh_sink_Logger_init [of s cfg2] by (simp_all add: n)
    have calls: "do_call ?A c amb w = do_call ?B c amb w" for c amb w
      by (rule do_call_same_names) (simp_all add: n)
    have writes: "appends_only ?s2 (info ?A m ei amb ?s2) (stdout_path ?B) (makeRecord INFO m ei amb)"
      "appends_only ?s2 (stdin ?A m ei amb ?s2) (stdin_path ?B) (makeRecord INFO m ei amb)"
      if "wired ?B ?s2" "level_of (cfg_level cfg2) \<le> INFO"
      using sink_entry(1,3) [OF that(1), of INFO m ei amb] that(2)
      by (simp_all add: info_def stdin_def n [symmetric] Logger_init_level)
    have writes_err: "appends_only ?s2 (error ?A m ei amb ?s2) (error_path ?B) (makeRecord ERROR m ei amb)"
      if "wired ?B ?s2" "level_of (cfg_level cfg2) \<le> ERROR"
      using sink_entry(2) [OF that(1), of ERROR m ei amb] that(2)
      by (simp add: error_def n [symmetric] Logger_init_level)
    have closes: "lg_handlers (loggers (snd (close ?A w)) (stdin_logger ?B)) = []"
      "lg_handlers (loggers (snd (close ?A w)) (stdout_logger ?B)) = []"
      "lg_handlers (loggers (snd (close ?A w)) (error_logger ?B)) = []"
      "lg_handlers (loggers (snd (close ?B w)) (stdin_logger ?A)) = []"
      "lg_handlers (loggers (snd (close ?B w)) (stdout_logger ?A)) = []"
      "lg_handlers (loggers (snd (close ?B w)) (error_logger ?A)) = []" for w
      using close_world_handlers [of ?A w] close_world_handlers [of ?B w]
      by (simp_all add: close_eq n)
    show ?thesis
      using n fresh calls writes writes_err closes by blast
  qed
  show ?thesis
    unfolding Logger_init_router using same other by blast
qed

text \<open>A second Logger named \<^verbatim>\<open>test_app\<close> in \<^verbatim>\<open>/other\<close>: \<^verbatim>\<open>info\<close> on the first
  object lands in \<^verbatim>\<open>/other/test_app_stdout.log\<close>, its own output file stays empty,
  and closing the second object detaches the first one's output sink. A Logger named
  \<^verbatim>\<open>cleanup_test\<close> leaves handler 1 on the first object's output sink.\<close>

theorem registry_keyed_by_name_witness:
  "cfg_log_name cfg_other_dir = cfg_log_name (cfg_app ''debug'' False)
   \<and> wired (fst (Logger_init cfg_other_dir (snd (built ''debug'' False))))
       (snd (Logger_init cfg_other_dir (snd (built ''debug'' False))))
   \<and> level_of (cfg_level cfg_other_dir) \<le> INFO
   \<and> file_content
       (info (fst (built ''debug'' False)) (Text ''The process is running.'') False None
          (snd (Logger_init cfg_other_dir (snd (built ''debug'' False)))))
       ''/other/test_app_stdout.log''
     = [\<lparr>rec_levelno = 20, rec_msg = Text ''The process is running.'', rec_exc_info = None\<rparr>]
   \<and> file_content
       (info (fst (built ''debug'' False)) (Text ''The process is running.'') False None
          (snd (Logger_init cfg_other_dir (snd (built ''debug'' False)))))
       ''/logs/test_app_stdout.log'' = []
   \<and> lg_handlers (loggers
        (snd (close (fst (Logger_init cfg_other_dir (snd (built ''debug'' False))))
           (snd (Logger_init cfg_other_dir (snd (built ''debug'' False))))))
        (stdout_logger (fst (built ''debug'' False)))) = []
   \<and> cfg_log_name cfg_other_name \<noteq> cfg_log_name (cfg_app ''debug'' False)
   \<and> lg_handlers (loggers (snd (Logger_init cfg_other_name (snd (built ''debug'' False))))
        (stdout_logger (fst (built ''debug'' False)))) = [1]"
proof -
  note same = registry_keyed_by_name [of cfg_other_dir "cfg_app ''debug'' False"
      "snd (built ''debug'' False)" world0 "Text ''The process is running.''" False None,
      THEN conjunct1, unfolded built_def [symmetric]]
  note other = registry_keyed_by_name [of cfg_other_name "cfg_app ''debug'' False"
      "snd (built ''debug'' False)" world0 "Text ''The process is running.''" False None,
      THEN conjunct2, unfolded built_def [symmetric]]
  have n: "cfg_log_name cfg_other_dir = cfg_log_name (cfg_app ''debug'' False)"
    "cfg_log_name cfg_other_name \<noteq> cfg_log_name (cfg_app ''debug'' False)"
    by (simp_all add: cfg_other_fields cfg_app_fields)
  have l: "level_of (cfg_level cfg_other_dir) \<le> INFO" "level_of (cfg_level cfg_other_dir) \<le> ERROR"
    by (simp_all add: cfg_other_fields level_of_literals level_defs)
  from same n(1) l rebuilt_wired [of cfg_other_dir "''debug''" False]
  have a: "appends_only (snd (Logger_init cfg_other_dir (snd (built ''debug'' False))))
             (info (fst (built ''debug'' False)) (Text ''The process is running.'') False None
                (snd (Logger_init cfg_other_dir (snd (built ''debug'' False)))))
             (stdout_path (fst (Logger_init cfg_other_dir (snd (built ''debug'' False)))))
             (makeRecord INFO (Text ''The process is running.'') False None)"
    by blast
  from same n(1)
  have c: "lg_handlers (loggers
        (snd (close (fst (Logger_init cfg_other_dir (snd (built ''debug'' False))))
           (snd (Logger_init cfg_other_dir (snd (built ''debug'' False))))))
        (stdout_logger (fst (built ''debug'' False)))) = []"
    by blast
  from other n(2)
  have o: "loggers (snd (Logger_init cfg_other_name (snd (built ''debug'' False))))
             (stdout_logger (fst (built ''debug'' False)))
           = loggers (snd (built ''debug'' False)) (stdout_logger (fst (built ''debug'' False)))"
    by blast
  show ?thesis
    using a c o n l(1) rebuilt_wired [of cfg_other_dir "''debug''" False]
    by (simp add: appends_only_def file_content_def rebuilt_files Logger_init_router
        cfg_other_fields makeRecord_def level_defs built_handlers)
qed

section \<open>C10: the minimum level also gates the ingress sink\<close>

text \<open>
  C10. The level given to the constructor becomes the level of all three loggers, the
  ingress logger included. When it is \<^verbatim>\<open>warning\<close>, \<^verbatim>\<open>error\<close> or \<^verbatim>\<open>critical\<close> (in
  any letter case) it lies above \<open>INFO\<close>, and every \<^verbatim>\<open>stdin\<close> call, right after
  construction and after any sequence of calls of the object's methods, leaves the world
  exactly as it was: nothing is written to the ingress file.
\<close>

theorem level_gates_ingress:
  assumes "lower (cfg_level cfg) \<in> {''warning'', ''error'', ''critical''}"
  shows "lg_level (loggers (snd (Logger_init cfg s)) (stdin_logger (fst (Logger_init cfg s))))
           = level_of (cfg_level cfg)
       \<and> lg_level (loggers (snd (Logger_init cfg s)) (stdout_logger (fst (Logger_init cfg s))))
           = level_of (cfg_level cfg)
       \<and> lg_level (loggers (snd (Logger_init cfg s)) (error_logger (fst (Logger_init cfg s))))
           = level_of (cfg_level cfg)
       \<and> INFO < level_of (cfg_level cfg)
       \<and> stdin (fst (Logger_init cfg s)) m ei amb (snd (Logger_init cfg s)) = snd (Logger_init cfg s)
       \<and> (\<forall>calls. stdin (fst (Logger_init cfg s)) m ei amb
                      (run (fst (Logger_init cfg s)) calls (snd (Logger_init cfg s)))
                    = run (fst (Logger_init cfg s)) calls (snd (Logger_init cfg s)))"
proof -
  let ?self = "router_of cfg" and ?s1 = "snd (Logger_init cfg s)"
  note above = above_info [OF assms]
  have later: "stdin ?self m ei amb (run ?self calls ?s1) = run ?self calls ?s1" for calls
    unfolding stdin_def
    using above
    by (intro logger_log_filtered) (simp_all add: run_level Logger_init_level level_defs)
  from later [of "[]"] have "stdin ?self m ei amb ?s1 = ?s1"
    by (simp add: run_def)
  then show ?thesis
    using later above by (simp add: Logger_init_router Logger_init_level)
qed

text \<open>Constructed with \<^verbatim>\<open>"Critical"\<close>: a \<^verbatim>\<open>critical\<close> call reaches the fault file, the
  \<^verbatim>\<open>stdin\<close> call after it leaves the ingress file empty.\<close>

theorem level_gates_ingress_witness:
  "lower (cfg_level (cfg_app ''Critical'' False)) \<in> {''warning'', ''error'', ''critical''}
   \<and> lg_level (loggers (snd (built ''Critical'' False)) (stdin_logger (fst (built ''Critical'' False)))) = 50
   \<and> file_content
       (stdin (fst (built ''Critical'' False)) (Text ''User input received.'') False None
          (run (fst (built ''Critical'' False))
             [(Critical (Text ''System shutdown imminent.'') False, None)]
             (snd (built ''Critical'' False))))
       (stdin_path (fst (built ''Critical'' False))) = []
   \<and> file_content
       (run (fst (built ''Critical'' False))
             [(Critical (Text ''System shutdown imminent.'') False, None)]
             (snd (built ''Critical'' False)))
       (error_path (fst (built ''Critical'' False)))
     = [\<lparr>rec_levelno = 50, rec_msg = Text ''System shutdown imminent.'', rec_exc_info = None\<rparr>]"
proof -
  have low: "lower (cfg_level (cfg_app ''Critical'' False)) \<in> {''warning'', ''error'', ''critical''}"
    unfolding cfg_app_fields by code_simp
  note t = level_gates_ingress [OF low, of world0 "Text ''User input received.''" False None,
      unfolded built_def [symmetric]]
  have crit: "files (run (fst (built ''Critical'' False))
             [(Critical (Text ''System shutdown imminent.'') False, None)]
             (snd (built ''Critical'' False)))
      = (\<lambda>_. None)(error_path (fst (built ''Critical'' False)) \<mapsto>
           [makeRecord CRITICAL (Text ''System shutdown imminent.'') False None])"
    using sink_entry(2) [OF built_wired, of "''Critical''" False CRITICAL
        "Text ''System shutdown imminent.''" False None]
    by (simp add: run_def critical_def appends_only_def built_level level_of_literals level_defs
        built_files file_content_def)
  show ?thesis
    using t low crit router_paths_distinct [of "cfg_app ''Critical'' False"]
    by (simp add: file_content_def built_router cfg_app_fields level_of_literals level_defs
        makeRecord_def)
qed

end
